theory Spec2Isabelle
  imports Main "HOL-Library.AList" "HOL-Library.Multiset"
begin

section \<open>The table: a pandas DataFrame as \<open>pd.read_csv\<close> returns it\<close>

text \<open>
  \<open>app.py\<close> is one Streamlit script. Each interaction runs it from the top in a fresh
  namespace: line 33 reads the uploaded file into \<open>df\<close>, tab 1 (lines 27-82) filters
  and diagnoses, tab 2 (lines 85-157) aggregates. The table is a pandas DataFrame, so
  the embedding carries what the script's pandas expressions depend on:
  \<^item> an ordered list of column names, each with its dtype. \<open>read_csv\<close> gives a
    column the dtype \<open>Object\<close> when it holds text (every field a \<open>str\<close>, an empty
    field the float NaN) and a numeric dtype when every non-empty field is a number
    (modelled with integer values); \<open>Datetime\<close> only arises from \<open>pd.to_datetime\<close>;
    \<open>bool\<close> columns are not modelled;
  \<^item> the rows in file order, a row giving the cell under each column name.
  A timestamp is its wall-clock time in nanoseconds since the epoch, and a calendar day
  is a number of days since the epoch; the UTC offset that the timestamps of a column
  may share is not part of a cell. A character is a code point below 256; strings with
  higher code points are not modelled.
\<close>

datatype cell = Str string | Num int | NaN | Ts int | NaT | Day int

datatype dtype = Object | Numeric | Datetime

datatype py_error =
  AttributeError | KeyError | NameError | TypeError | IndexError | ParserError | RemoteError

type_synonym row = "string \<Rightarrow> cell"

record dataframe =
  columns :: "(string \<times> dtype) list"
  rows :: "row list"

text \<open>A Series: the dtype and the values of one column, in row order.\<close>

type_synonym series = "dtype \<times> cell list"

subsection \<open>Python strings\<close>

text \<open>
  \<open>str.lower\<close> on the ASCII letters. Python also lower-cases letters outside ASCII, to
  letters outside ASCII; they are left as they are here, which makes no difference to
  the script: it compares the result with four ASCII words only (\<open>failed\<close>,
  \<open>succeeded\<close>, \<open>inprogress\<close>, \<open>queued\<close>).
\<close>

definition ascii_upper :: string where
  "ascii_upper = ''ABCDEFGHIJKLMNOPQRSTUVWXYZ''"

definition ascii_lower :: string where
  "ascii_lower = ''abcdefghijklmnopqrstuvwxyz''"

definition lower_char :: "char \<Rightarrow> char" where
  "lower_char c = (case map_of (zip ascii_upper ascii_lower) c of Some d \<Rightarrow> d | None \<Rightarrow> c)"

definition lower :: "string \<Rightarrow> string" where
  "lower s = map lower_char s"

text \<open>
  \<open>str.isspace\<close> for one character, and \<open>str.strip()\<close>. Python's white space below
  code point 256 is the tab, line feed, vertical tab, form feed, carriage return, the four
  separators 0x1C-0x1F, the space, the next line control 0x85 and the no-break space
  0xA0.
\<close>

definition isspace :: "char \<Rightarrow> bool" where
  "isspace c = (of_char c \<in> {9, 10, 11, 12, 13, 28, 29, 30, 31, 32, 133, (160::nat)})"

definition strip :: "string \<Rightarrow> string" where
  "strip s = rev (dropWhile isspace (rev (dropWhile isspace s)))"

subsection \<open>Cells\<close>

text \<open>\<open>pd.isna\<close> of a scalar.\<close>

fun isna :: "cell \<Rightarrow> bool" where
  "isna NaN = True"
| "isna NaT = True"
| "isna _ = False"

text \<open>One element of \<open>Series.str.lower()\<close>: an element that is not a \<open>str\<close> gives NaN.\<close>

fun lower_cell :: "cell \<Rightarrow> cell" where
  "lower_cell (Str s) = Str (lower s)"
| "lower_cell _ = NaN"

text \<open>One element of \<open>series == scalar\<close>: a missing value equals nothing, itself included.\<close>

definition py_eq :: "cell \<Rightarrow> cell \<Rightarrow> bool" where
  "py_eq a b = (a = b \<and> \<not> isna a)"

text \<open>
  One element of \<open>left + right\<close> on object data. pandas applies the operator where both
  sides are present and leaves NaN elsewhere; \<open>str + int\<close> raises \<open>TypeError\<close>.
\<close>

fun add_cell :: "cell \<Rightarrow> cell \<Rightarrow> py_error + cell" where
  "add_cell (Str a) (Str b) = Inr (Str (a @ b))"
| "add_cell (Num a) (Num b) = Inr (Num (a + b))"
| "add_cell a b = (if isna a \<or> isna b then Inr NaN else Inl TypeError)"

text \<open>Python truthiness (\<open>not x\<close>) and whether \<open>str(x).strip()\<close> is empty. \<open>str\<close> of NaN is
  \<open>nan\<close>, of a number its digits, of a timestamp its date: none of them is blank.\<close>

fun falsy :: "cell \<Rightarrow> bool" where
  "falsy (Str s) = (s = [])"
| "falsy (Num n) = (n = 0)"
| "falsy _ = False"

fun blank :: "cell \<Rightarrow> bool" where
  "blank (Str s) = (strip s = [])"
| "blank _ = False"

subsection \<open>The pandas operations the script uses\<close>

text \<open>The first error of a list of results, or all the values.\<close>

fun collect :: "(py_error + 'a) list \<Rightarrow> py_error + 'a list" where
  "collect [] = Inr []"
| "collect (x # xs) =
     (case x of
        Inl e \<Rightarrow> Inl e
      | Inr v \<Rightarrow> (case collect xs of Inl e \<Rightarrow> Inl e | Inr vs \<Rightarrow> Inr (v # vs)))"

text \<open>\<open>name in df.columns\<close>, \<open>df[name]\<close> (a missing column raises \<open>KeyError\<close>) and
  \<open>df.empty\<close>.\<close>

definition has_column :: "dataframe \<Rightarrow> string \<Rightarrow> bool" where
  "has_column df c = (c \<in> set (map fst (columns df)))"

definition getitem :: "dataframe \<Rightarrow> string \<Rightarrow> py_error + series" where
  "getitem df c =
     (case map_of (columns df) c of
        None \<Rightarrow> Inl KeyError
      | Some t \<Rightarrow> Inr (t, map (\<lambda>r. r c) (rows df)))"

definition empty_df :: "dataframe \<Rightarrow> bool" where
  "empty_df df = (rows df = [] \<or> columns df = [])"

text \<open>\<open>series.str.lower()\<close>: the \<open>.str\<close> accessor raises \<open>AttributeError\<close> on a column that
  is not of object dtype.\<close>

definition str_lower :: "series \<Rightarrow> py_error + series" where
  "str_lower s =
     (if fst s = Object then Inr (Object, map lower_cell (snd s)) else Inl AttributeError)"

text \<open>\<open>series == scalar\<close>, a boolean mask, and \<open>df[mask]\<close>, a new frame holding the rows
  where the mask is true.\<close>

definition eq_scalar :: "series \<Rightarrow> cell \<Rightarrow> bool list" where
  "eq_scalar s v = map (\<lambda>x. py_eq x v) (snd s)"

definition select_rows :: "dataframe \<Rightarrow> bool list \<Rightarrow> dataframe" where
  "select_rows df keep = df\<lparr>rows := map fst (filter snd (zip (rows df) keep))\<rparr>"

text \<open>\<open>df[name] = series\<close>: the column is replaced where it stands, or appended as the
  last column. Every series the script assigns is computed from the same frame, so the
  lengths agree.\<close>

definition setitem :: "dataframe \<Rightarrow> string \<Rightarrow> series \<Rightarrow> dataframe" where
  "setitem df c s =
     \<lparr>columns = AList.update c (fst s) (columns df),
      rows = map (\<lambda>(r, v). r(c := v)) (zip (rows df) (snd s))\<rparr>"

text \<open>\<open>series + " - "\<close> and \<open>series + series\<close>. A column of numeric or datetime dtype
  plus a \<open>str\<close> raises \<open>TypeError\<close> whatever it holds.\<close>

definition add_scalar :: "series \<Rightarrow> string \<Rightarrow> py_error + series" where
  "add_scalar s x =
     (if fst s = Object
      then (case collect (map (\<lambda>c. add_cell c (Str x)) (snd s)) of
              Inl e \<Rightarrow> Inl e
            | Inr vs \<Rightarrow> Inr (Object, vs))
      else Inl TypeError)"

definition add_series :: "series \<Rightarrow> series \<Rightarrow> py_error + series" where
  "add_series s1 s2 =
     (case collect (map (\<lambda>(a, b). add_cell a b) (zip (snd s1) (snd s2))) of
        Inl e \<Rightarrow> Inl e
      | Inr vs \<Rightarrow> Inr (Object, vs))"

section \<open>Tab 1: the failure filter and the AI diagnosis\<close>

text \<open>What a run shows or does, in order. Headers, subheaders, the spinner and the layout
  are left out.\<close>

datatype event =
    Info_upload
  | Warning_no_status
  | Show_table dataframe
  | Selectbox "cell list"
  | Button
  | Info_no_error
  | Invoke cell cell
  | Suggestions string
  | Info_dashboard
  | Warning_required
  | Metrics nat nat nat nat
  | Pie "(cell \<times> nat) list"
  | Bar "(cell \<times> nat) list"
  | Line "(cell \<times> nat) list"

text \<open>The widgets' state in one run: the checkbox of line 36, the option chosen in the
  select box of line 60 (its position in the list) and whether the button of line 66 was
  pressed.\<close>

record widgets =
  show_failed_only :: bool
  selected :: nat
  analyze_clicked :: bool

text \<open>
  Lines 38-46. The result is the notices shown, \<open>filtered_df\<close>, and the binding of the
  name \<open>failed_df\<close>: it is assigned on line 40 only, so it stays unbound (\<open>None\<close>) on
  the two other paths.
\<close>

definition failure_filter ::
  "dataframe \<Rightarrow> bool \<Rightarrow> py_error + (event list \<times> dataframe \<times> dataframe option)" where
  "failure_filter df toggle =
     (if toggle then
        (if has_column df ''Status'' then
           (case getitem df ''Status'' of
              Inl e \<Rightarrow> Inl e
            | Inr status \<Rightarrow>
                (case str_lower status of
                   Inl e \<Rightarrow> Inl e
                 | Inr low \<Rightarrow>
                     (let failed_df = select_rows df (eq_scalar low (Str ''failed''))
                      in Inr ([], failed_df, Some failed_df))))
         else Inr ([Warning_no_status], df, None))
      else Inr ([], df, None))"

text \<open>Line 57: \<open>failed_df['Pipeline name'] + " - " + failed_df['Run start']\<close>, evaluated left
  to right.\<close>

definition derive_keys :: "dataframe \<Rightarrow> py_error + series" where
  "derive_keys failed_df =
     (case getitem failed_df ''Pipeline name'' of
        Inl e \<Rightarrow> Inl e
      | Inr name \<Rightarrow>
          (case add_scalar name '' - '' of
             Inl e \<Rightarrow> Inl e
           | Inr left \<Rightarrow>
               (case getitem failed_df ''Run start'' of
                  Inl e \<Rightarrow> Inl e
                | Inr start \<Rightarrow> add_series left start)))"

text \<open>\<open>st.selectbox\<close> returns the chosen option, the first one when nothing valid is
  chosen.\<close>

definition selectbox :: "cell list \<Rightarrow> nat \<Rightarrow> cell" where
  "selectbox options i = (if i < length options then options ! i else options ! 0)"

text \<open>Line 61: the rows of \<open>failed_df\<close> whose key equals the selected one.\<close>

definition resolve :: "dataframe \<Rightarrow> cell \<Rightarrow> py_error + dataframe" where
  "resolve failed_df selected_pipeline_key =
     (case getitem failed_df ''PipelineKey'' of
        Inl e \<Rightarrow> Inl e
      | Inr keys \<Rightarrow> Inr (select_rows failed_df (eq_scalar keys selected_pipeline_key)))"

text \<open>Line 64: \<open>selected_row['Error'].values[0]\<close>.\<close>

definition error_text_of :: "dataframe \<Rightarrow> py_error + cell" where
  "error_text_of selected_row =
     (case getitem selected_row ''Error'' of
        Inl e \<Rightarrow> Inl e
      | Inr errors \<Rightarrow> (case snd errors of [] \<Rightarrow> Inl IndexError | x # _ \<Rightarrow> Inr x))"

text \<open>
  Lines 67-79, the button's handler. \<open>invoke\<close> stands for \<open>model.invoke\<close> on the prompt
  built from the selected key and the error text: it returns the reply or raises.
\<close>

definition analyze ::
  "(cell \<Rightarrow> cell \<Rightarrow> py_error + string) \<Rightarrow> cell \<Rightarrow> cell \<Rightarrow> event list \<times> py_error option" where
  "analyze invoke selected_pipeline_key error_text =
     (if falsy error_text \<or> blank error_text then ([Info_no_error], None)
      else (case invoke selected_pipeline_key error_text of
              Inl e \<Rightarrow> ([Invoke selected_pipeline_key error_text], Some e)
            | Inr content \<Rightarrow>
                ([Invoke selected_pipeline_key error_text, Suggestions content], None)))"

text \<open>
  Lines 53-79. The result is the events, the exception that ended the run if any, and
  the binding of \<open>failed_df\<close> afterwards. Python's \<open>and\<close> reads \<open>failed_df\<close> only when the
  toggle is on; reading the unbound name raises \<open>NameError\<close>.
\<close>

definition ask_ai ::
  "(cell \<Rightarrow> cell \<Rightarrow> py_error + string) \<Rightarrow> widgets \<Rightarrow> dataframe option \<Rightarrow>
     event list \<times> py_error option \<times> dataframe option" where
  "ask_ai invoke w binding =
     (if \<not> show_failed_only w then ([], None, binding)
      else
        (case binding of
           None \<Rightarrow> ([], Some NameError, None)
         | Some failed_df \<Rightarrow>
             (if empty_df failed_df then ([], None, binding)
              else
                (case derive_keys failed_df of
                   Inl e \<Rightarrow> ([], Some e, binding)
                 | Inr keys \<Rightarrow>
                     (let failed_df' = setitem failed_df ''PipelineKey'' keys;
                          pipeline_keys = snd keys;
                          selected_pipeline_key = selectbox pipeline_keys (selected w)
                      in (case resolve failed_df' selected_pipeline_key of
                            Inl e \<Rightarrow> ([Selectbox pipeline_keys], Some e, Some failed_df')
                          | Inr selected_row \<Rightarrow>
                              (if empty_df selected_row
                               then ([Selectbox pipeline_keys], None, Some failed_df')
                               else
                                 (case error_text_of selected_row of
                                    Inl e \<Rightarrow> ([Selectbox pipeline_keys], Some e, Some failed_df')
                                  | Inr error_text \<Rightarrow>
                                      (if analyze_clicked w
                                       then (let (es, err) =
                                                   analyze invoke selected_pipeline_key error_text
                                             in (Selectbox pipeline_keys # Button # es, err,
                                                 Some failed_df'))
                                       else ([Selectbox pipeline_keys, Button], None,
                                             Some failed_df'))))))))))"

text \<open>Lines 32-82 for an uploaded table: the filter, the table shown on line 50, then
  the diagnosis. With the toggle on, \<open>filtered_df\<close> and \<open>failed_df\<close> are one object, a
  copy of the selected rows of \<open>df\<close>; line 50 has sent it to the page before line 57 adds
  the key column to it.\<close>

definition tab1 ::
  "(cell \<Rightarrow> cell \<Rightarrow> py_error + string) \<Rightarrow> widgets \<Rightarrow> dataframe \<Rightarrow>
     event list \<times> py_error option \<times> dataframe option" where
  "tab1 invoke w df =
     (case failure_filter df (show_failed_only w) of
        Inl e \<Rightarrow> ([], Some e, None)
      | Inr (notices, filtered_df, binding) \<Rightarrow>
          (let (es, err, binding') = ask_ai invoke w binding
           in (notices @ [Show_table filtered_df] @ es, err, binding')))"

section \<open>Tab 2: the dashboard\<close>

subsection \<open>\<open>value_counts\<close>, \<open>nlargest\<close>, \<open>get\<close>\<close>

text \<open>
  \<open>Series.value_counts()\<close> drops the missing values, counts the rest in one pass over a hash
  table that keeps its keys in the order they were first seen (\<open>value_count\<close>), and
  then sorts the counts with \<open>sort_values(ascending=False)\<close>.
\<close>

fun bump :: "'a \<Rightarrow> ('a \<times> nat) list \<Rightarrow> ('a \<times> nat) list" where
  "bump k [] = [(k, 1)]"
| "bump k ((k', n) # kvs) = (if k = k' then (k', Suc n) # kvs else (k', n) # bump k kvs)"

definition value_count :: "'a list \<Rightarrow> ('a \<times> nat) list" where
  "value_count vs = foldl (\<lambda>table v. bump v table) [] vs"

text \<open>
  The sort is pandas' and numpy's: \<open>sort_values\<close> is called with its default
  \<open>kind='quicksort'\<close>, which pandas documents as not stable, and the script asks for no
  other kind. It is a parameter of the model, \<open>sort_desc\<close>; \<open>sorts_descending\<close> is what
  every kind guarantees (a permutation of the input, in descending order of the counts),
  and \<open>stable_desc\<close> is the sort that also keeps equal counts in their input order
  (pandas reverses the input, sorts it in ascending order and reverses the result; with
  a sort that keeps ties this is \<open>stable_desc\<close>).
\<close>

type_synonym sorter = "(cell \<times> nat) list \<Rightarrow> (cell \<times> nat) list"

definition descending :: "(cell \<times> nat) list \<Rightarrow> bool" where
  "descending xs = sorted_wrt (\<lambda>a b. snd b \<le> snd a) xs"

definition sorts_descending :: "sorter \<Rightarrow> bool" where
  "sorts_descending sort_desc = (\<forall>xs. mset (sort_desc xs) = mset xs \<and> descending (sort_desc xs))"

definition stable_desc :: sorter where
  "stable_desc xs = rev (sort_key snd (rev xs))"

definition value_counts :: "sorter \<Rightarrow> series \<Rightarrow> (cell \<times> nat) list" where
  "value_counts sort_desc s = sort_desc (value_count (filter (\<lambda>v. \<not> isna v) (snd s)))"

text \<open>
  \<open>Series.nlargest(n)\<close> with \<open>keep='first'\<close>: when the series has at most \<open>n\<close> entries it is
  \<open>sort_values(ascending=False).head(n)\<close>; otherwise the entries are sorted by the negated
  count with a merge sort, which keeps ties in the order of the series, and the first
  \<open>n\<close> are taken.
\<close>

definition nlargest :: "nat \<Rightarrow> sorter \<Rightarrow> (cell \<times> nat) list \<Rightarrow> (cell \<times> nat) list" where
  "nlargest n sort_desc s =
     (if length s \<le> n then take n (sort_desc s)
      else take n (sort_key (\<lambda>p. - int (snd p)) s))"

text \<open>\<open>status_counts.get(key, 0)\<close>.\<close>

definition get_count :: "(cell \<times> nat) list \<Rightarrow> cell \<Rightarrow> nat" where
  "get_count counts k = (case map_of counts k of None \<Rightarrow> 0 | Some n \<Rightarrow> n)"

text \<open>Lines 124-129: the five most frequent pipeline names among the failed rows.\<close>

definition failed_counts :: "sorter \<Rightarrow> dataframe \<Rightarrow> py_error + (cell \<times> nat) list" where
  "failed_counts sort_desc df =
     (case getitem df ''Status'' of
        Inl e \<Rightarrow> Inl e
      | Inr status \<Rightarrow>
          (case str_lower status of
             Inl e \<Rightarrow> Inl e
           | Inr low \<Rightarrow>
               (case getitem (select_rows df (eq_scalar low (Str ''failed''))) ''Pipeline name'' of
                  Inl e \<Rightarrow> Inl e
                | Inr names \<Rightarrow> Inr (nlargest 5 sort_desc (value_counts sort_desc names)))))"

subsection \<open>Timestamps and days\<close>

text \<open>
  \<open>pd.to_datetime(series, errors='coerce')\<close>. The parser of the strings is pandas'; it is a
  parameter, given the whole column (pandas 2 settles on one format for the column from
  its first value). It returns two things. The first is whether the strings it can
  parse agree on their UTC offset (\<open>One_zone\<close>: no string has an offset, or all have the
  same one) or not (\<open>Mixed_zones\<close>). The second is its reading of one string: the
  wall-clock time, or \<open>None\<close> for a string it cannot parse, which \<open>errors='coerce'\<close> turns
  into NaT.

  A text column whose strings have different UTC offsets does not become a datetime
  column: pandas returns a column of dtype \<open>object\<close> that holds one timestamp object per
  string. Every other column becomes a column of datetime dtype.

  A number is read as nanoseconds since the epoch. A numeric column is \<open>int64\<close>: its
  smallest value, -9223372036854775808, is the value pandas stores for NaT and is read
  as NaT; a number outside 64 bits, which such a column cannot hold, is given NaT as
  well.
\<close>

datatype zones = One_zone | Mixed_zones

type_synonym parser = "cell list \<Rightarrow> zones \<times> (string \<Rightarrow> int option)"

definition ns_per_day :: int where
  "ns_per_day = 86400000000000"

fun to_ts :: "(string \<Rightarrow> int option) \<Rightarrow> cell \<Rightarrow> cell" where
  "to_ts p (Str s) = (case p s of Some t \<Rightarrow> Ts t | None \<Rightarrow> NaT)"
| "to_ts p (Num n) = (if - (2 ^ 63) < n \<and> n < 2 ^ 63 then Ts n else NaT)"
| "to_ts p (Ts t) = Ts t"
| "to_ts p (Day d) = Ts (d * ns_per_day)"
| "to_ts p NaN = NaT"
| "to_ts p NaT = NaT"

definition to_datetime :: "parser \<Rightarrow> series \<Rightarrow> series" where
  "to_datetime parse s =
     (if fst s = Object \<and> fst (parse (snd s)) = Mixed_zones then Object else Datetime,
      map (to_ts (snd (parse (snd s)))) (snd s))"

text \<open>
  \<open>series.dt.date\<close>: the calendar day of each timestamp, NaT staying NaT. The \<open>.dt\<close>
  accessor raises \<open>AttributeError\<close> on a column that is not of datetime dtype. The days
  are Python \<open>date\<close> objects in a column of dtype \<open>object\<close>; when the column is not empty
  and holds NaT only, pandas gives it the datetime dtype instead.
\<close>

fun date_cell :: "cell \<Rightarrow> cell" where
  "date_cell (Ts t) = Day (t div ns_per_day)"
| "date_cell _ = NaT"

definition dt_date :: "series \<Rightarrow> py_error + series" where
  "dt_date s =
     (if fst s = Datetime
      then (let dates = map date_cell (snd s)
            in Inr (if dates \<noteq> [] \<and> list_all (\<lambda>d. d = NaT) dates then Datetime else Object,
                    dates))
      else Inl AttributeError)"

text \<open>\<open>df.groupby('Date').size()\<close>: one entry per day, in ascending order of the days, with
  the number of rows of that day; a row whose key is missing belongs to no group.\<close>

fun day_of :: "cell \<Rightarrow> int option" where
  "day_of (Day d) = Some d"
| "day_of _ = None"

definition groupby_size :: "cell list \<Rightarrow> (cell \<times> nat) list" where
  "groupby_size keys =
     (let days = List.map_filter day_of keys
      in map (\<lambda>d. (Day d, count_list days d)) (sort (remdups days)))"

subsection \<open>The tab\<close>

text \<open>
  Lines 92-157 for an uploaded table. The result is the events, the exception that ended
  the run if any, and \<open>df\<close> afterwards: lines 143 and 144 assign two columns of \<open>df\<close>
  itself. The test of line 107 repeats the guard of line 92 and is always true there.
  Line 144 reads the column that line 143 has just assigned, and raises when that column
  is not of datetime dtype: \<open>df\<close> then keeps the column of line 143 and gets no \<open>Date\<close>
  column. Line 145 groups by the column that line 144 has just assigned.
\<close>

definition tab2 ::
  "sorter \<Rightarrow> parser \<Rightarrow> dataframe \<Rightarrow> event list \<times> py_error option \<times> dataframe" where
  "tab2 sort_desc parse df =
     (if \<not> has_column df ''Status'' \<or> \<not> has_column df ''Pipeline name''
      then ([Warning_required], None, df)
      else
        (case getitem df ''Status'' of
           Inl e \<Rightarrow> ([], Some e, df)
         | Inr status \<Rightarrow>
             (case str_lower status of
                Inl e \<Rightarrow> ([], Some e, df)
              | Inr low \<Rightarrow>
                  (let status_counts = value_counts sort_desc low;
                       metrics = Metrics (get_count status_counts (Str ''succeeded''))
                                   (get_count status_counts (Str ''failed''))
                                   (get_count status_counts (Str ''inprogress''))
                                   (get_count status_counts (Str ''queued''));
                       pie = Pie (value_counts sort_desc status)
                   in (case failed_counts sort_desc df of
                         Inl e \<Rightarrow> ([metrics, pie], Some e, df)
                       | Inr top5 \<Rightarrow>
                           (if has_column df ''Run start'' then
                              (case getitem df ''Run start'' of
                                 Inl e \<Rightarrow> ([metrics, pie, Bar top5], Some e, df)
                               | Inr start \<Rightarrow>
                                   (let parsed = to_datetime parse start;
                                        df1 = setitem df ''Run start'' parsed
                                    in (case dt_date parsed of
                                          Inl e \<Rightarrow> ([metrics, pie, Bar top5], Some e, df1)
                                        | Inr dates \<Rightarrow>
                                            (let df2 = setitem df1 ''Date'' dates;
                                                 daily_runs = groupby_size (snd dates)
                                             in ([metrics, pie, Bar top5, Line daily_runs],
                                                 None, df2)))))
                            else ([metrics, pie, Bar top5], None, df)))))))"

section \<open>One run of the script\<close>

text \<open>
  \<open>uploaded\<close> is \<open>None\<close> when no file is uploaded, and otherwise what
  \<open>pd.read_csv(uploaded_file)\<close> does on line 33: the table, or the exception it raises.
  Nothing in the script catches an exception, so the first one ends the run: what
  follows it is not executed. \<open>df_after\<close> and \<open>failed_df_after\<close> are the two names'
  bindings when the run ends.
\<close>

record outcome =
  events :: "event list"
  raised :: "py_error option"
  df_after :: "dataframe option"
  failed_df_after :: "dataframe option"

definition app ::
  "(cell \<Rightarrow> cell \<Rightarrow> py_error + string) \<Rightarrow> sorter \<Rightarrow> parser \<Rightarrow> widgets \<Rightarrow>
     (py_error + dataframe) option \<Rightarrow> outcome" where
  "app invoke sort_desc parse w uploaded =
     (case uploaded of
        None \<Rightarrow>
          \<lparr>events = [Info_upload, Info_dashboard], raised = None,
           df_after = None, failed_df_after = None\<rparr>
      | Some (Inl e) \<Rightarrow>
          \<lparr>events = [], raised = Some e, df_after = None, failed_df_after = None\<rparr>
      | Some (Inr df) \<Rightarrow>
          (let (es1, err1, binding) = tab1 invoke w df
           in (case err1 of
                 Some e \<Rightarrow>
                   \<lparr>events = es1, raised = Some e, df_after = Some df,
                    failed_df_after = binding\<rparr>
               | None \<Rightarrow>
                   (let (es2, err2, df') = tab2 sort_desc parse df
                    in \<lparr>events = es1 @ es2, raised = err2, df_after = Some df',
                        failed_df_after = binding\<rparr>))))"

section \<open>Text columns and example tables\<close>

text \<open>
  What \<open>read_csv\<close> guarantees of a column it read as text: the dtype is \<open>Object\<close> and every
  cell is a \<open>str\<close> or NaN.
\<close>

fun is_text :: "cell \<Rightarrow> bool" where
  "is_text (Str s) = True"
| "is_text NaN = True"
| "is_text _ = False"

definition text_column :: "dataframe \<Rightarrow> string \<Rightarrow> bool" where
  "text_column df c =
     (map_of (columns df) c = Some Object \<and> list_all (\<lambda>r. is_text (r c)) (rows df))"

text \<open>A row given by its non-empty fields; every other field is NaN.\<close>

definition row_of :: "(string \<times> cell) list \<Rightarrow> row" where
  "row_of kvs = (\<lambda>c. case map_of kvs c of Some v \<Rightarrow> v | None \<Rightarrow> NaN)"

definition adf_columns :: "(string \<times> dtype) list" where
  "adf_columns =
     [(''Pipeline name'', Object), (''Run start'', Object), (''Status'', Object),
      (''Error'', Object)]"

definition run1 :: row where
  "run1 = row_of [(''Pipeline name'', Str ''copy_sales''),
                  (''Run start'', Str ''6/10/2025, 5:03:19 PM''),
                  (''Status'', Str ''Succeeded'')]"

definition run2 :: row where
  "run2 = row_of [(''Pipeline name'', Str ''load_orders''),
                  (''Run start'', Str ''6/10/2025, 6:10:00 PM''),
                  (''Status'', Str ''Failed''),
                  (''Error'', Str ''Timeout'')]"

definition run3 :: row where
  "run3 = row_of [(''Pipeline name'', Str ''load_orders''),
                  (''Run start'', Str ''6/11/2025, 6:10:00 PM''),
                  (''Status'', Str ''FAILED'')]"

text \<open>Three runs; the third failed and its \<open>Error\<close> field is empty.\<close>

definition adf_log :: dataframe where
  "adf_log = \<lparr>columns = adf_columns, rows = [run1, run2, run3]\<rparr>"

definition run4 :: row where
  "run4 = row_of [(''Pipeline name'', Str ''nightly_load''),
                  (''Status'', Str ''Failed''),
                  (''Error'', Str ''Timeout'')]"

text \<open>Two runs; the second failed and its \<open>Run start\<close> field is empty.\<close>

definition missing_start_log :: dataframe where
  "missing_start_log = \<lparr>columns = adf_columns, rows = [run1, run4]\<rparr>"

text \<open>A file with no \<open>Status\<close> column, and one whose \<open>Status\<close> column holds numbers.\<close>

definition no_status_log :: dataframe where
  "no_status_log =
     \<lparr>columns = [(''Pipeline name'', Object), (''Run start'', Object), (''Error'', Object)],
      rows = [row_of [(''Pipeline name'', Str ''load_orders''),
                      (''Run start'', Str ''6/10/2025, 6:10:00 PM''),
                      (''Error'', Str ''Timeout'')]]\<rparr>"

definition numeric_status_log :: dataframe where
  "numeric_status_log =
     \<lparr>columns = [(''Pipeline name'', Object), (''Status'', Numeric)],
      rows = [row_of [(''Pipeline name'', Str ''load_orders''), (''Status'', Num 1)]]\<rparr>"

definition toggle_on :: widgets where
  "toggle_on = \<lparr>show_failed_only = True, selected = 0, analyze_clicked = False\<rparr>"

definition toggle_off :: widgets where
  "toggle_off = \<lparr>show_failed_only = False, selected = 0, analyze_clicked = False\<rparr>"

definition analyze_second :: widgets where
  "analyze_second = \<lparr>show_failed_only = True, selected = 1, analyze_clicked = True\<rparr>"

definition canned_reply :: "cell \<Rightarrow> cell \<Rightarrow> py_error + string" where
  "canned_reply selected_pipeline_key error_text = Inr ''Check the linked service.''"

text \<open>Tables for the dashboard: one with a \<open>Status\<close> column only; the statuses
  Succeeded, Failed, Failed, Queued, succeeded; the failures A, B, A, C, A, B; and four
  runs, the last with a \<open>Run start\<close> that is no timestamp.\<close>

definition status_only_log :: dataframe where
  "status_only_log =
     \<lparr>columns = [(''Status'', Object)],
      rows = [row_of [(''Status'', Str ''Failed'')], row_of [(''Status'', Str ''Succeeded'')]]\<rparr>"

definition named :: "string \<Rightarrow> string \<Rightarrow> row" where
  "named name status = row_of [(''Pipeline name'', Str name), (''Status'', Str status)]"

definition kpi_log :: dataframe where
  "kpi_log =
     \<lparr>columns = [(''Pipeline name'', Object), (''Status'', Object)],
      rows = [named ''A'' ''Succeeded'', named ''B'' ''Failed'', named ''C'' ''Failed'',
              named ''D'' ''Queued'', named ''E'' ''succeeded'']\<rparr>"


definition run5 :: row where
  "run5 = row_of [(''Pipeline name'', Str ''copy_sales''),
                  (''Run start'', Str ''yesterday''),
                  (''Status'', Str ''Queued'')]"

definition runs_log :: dataframe where
  "runs_log = \<lparr>columns = adf_columns, rows = [run1, run2, run3, run5]\<rparr>"

text \<open>Five runs: the fourth has a \<open>Run start\<close> that is no timestamp, and the fifth, which
  failed, has none.\<close>

definition dashboard_log :: dataframe where
  "dashboard_log = \<lparr>columns = adf_columns, rows = [run1, run2, run3, run5, run4]\<rparr>"

text \<open>Two runs whose \<open>Run start\<close> fields have different UTC offsets.\<close>

definition run6 :: row where
  "run6 = row_of [(''Pipeline name'', Str ''copy_sales''),
                  (''Run start'', Str ''2025-06-10T17:03:19+01:00''),
                  (''Status'', Str ''Succeeded'')]"

definition run7 :: row where
  "run7 = row_of [(''Pipeline name'', Str ''load_orders''),
                  (''Run start'', Str ''2025-06-11T18:10:00+02:00''),
                  (''Status'', Str ''Failed''),
                  (''Error'', Str ''Timeout'')]"

definition offset_log :: dataframe where
  "offset_log = \<lparr>columns = adf_columns, rows = [run6, run7]\<rparr>"

text \<open>
  A parser for the timestamps of the examples: each string it reads, with its UTC offset
  in minutes if it has one and its wall-clock time in nanoseconds since the epoch (the
  10th of June 2025 is day 20249). A column has one zone when the strings it reads have
  at most one offset between them.
\<close>

definition toy_times :: "(string \<times> int option \<times> int) list" where
  "toy_times =
     [(''6/10/2025, 5:03:19 PM'', None, 1749574999000000000),
      (''6/10/2025, 6:10:00 PM'', None, 1749579000000000000),
      (''6/11/2025, 6:10:00 PM'', None, 1749665400000000000),
      (''2025-06-10T17:03:19+01:00'', Some 60, 1749574999000000000),
      (''2025-06-11T18:10:00+02:00'', Some 120, 1749665400000000000)]"

fun offset_of :: "cell \<Rightarrow> int option option" where
  "offset_of (Str s) = map_option fst (map_of toy_times s)"
| "offset_of _ = None"

definition toy_reading :: "string \<Rightarrow> int option" where
  "toy_reading s = map_option snd (map_of toy_times s)"

definition toy_parser :: parser where
  "toy_parser column =
     (if length (remdups (List.map_filter offset_of column)) \<le> 1 then One_zone else Mixed_zones,
      toy_reading)"



section \<open>Proofs\<close>

lemma has_column_iff: "has_column df c \<longleftrightarrow> map_of (columns df) c \<noteq> None"
  by (simp add: has_column_def map_of_eq_None_iff)

lemma select_rows_filter:
  "map fst (filter snd (zip xs (map P xs))) = filter P xs"
  by (induction xs) auto

subsection \<open>Frames, columns and keys\<close>

lemma py_eq_Str [simp]: "py_eq x (Str s) \<longleftrightarrow> x = Str s"
  by (auto simp: py_eq_def)

lemma getitem_Some:
  "map_of (columns df) c = Some t \<Longrightarrow> getitem df c = Inr (t, map (\<lambda>r. r c) (rows df))"
  by (simp add: getitem_def)

lemma zip_map_same: "zip xs (map f xs) = map (\<lambda>x. (x, f x)) xs"
  by (induction xs) auto

lemma find_filter: "List.find P xs = Some r \<Longrightarrow> \<exists>rs. filter P xs = r # rs"
  by (induction xs) (auto split: if_splits)

lemma select_map_map:
  "map fst (filter snd (zip (map g xs) (map P xs))) = map g (filter P xs)"
  by (induction xs) auto

lemma rows_setitem:
  "rows (setitem df c (t, map f (rows df))) = map (\<lambda>r. r(c := f r)) (rows df)"
  by (simp add: setitem_def zip_map_same comp_def)

lemma map_of_columns_setitem:
  "map_of (columns (setitem df c s)) = (map_of (columns df))(c \<mapsto> fst s)"
  by (simp add: setitem_def update_conv')

lemma columns_setitem_nonempty: "columns (setitem df c s) \<noteq> []"
  by (cases "columns df") (auto simp: setitem_def)

lemma has_column_setitem: "has_column (setitem df c s) c' \<longleftrightarrow> c' = c \<or> has_column df c'"
  by (simp add: has_column_iff map_of_columns_setitem)

lemma getitem_setitem_same:
  "getitem (setitem df c (t, map f (rows df))) c = Inr (t, map f (rows df))"
  by (simp add: getitem_def map_of_columns_setitem rows_setitem comp_def)

lemma getitem_setitem_other:
  "c' \<noteq> c \<Longrightarrow> getitem (setitem df c (t, map f (rows df))) c' = getitem df c'"
  by (simp add: getitem_def map_of_columns_setitem rows_setitem comp_def split: option.splits)

lemma collect_cong_Inr:
  "(\<And>x. x \<in> set xs \<Longrightarrow> g x = Inr (f x)) \<Longrightarrow> collect (map g xs) = Inr (map f xs)"
  by (induction xs) auto

lemma add_cell_text_scalar:
  "is_text c \<Longrightarrow> add_cell c (Str x) = Inr (case c of Str a \<Rightarrow> Str (a @ x) | _ \<Rightarrow> NaN)"
  by (cases c) auto

lemma add_cell_text_text:
  "is_text a \<Longrightarrow> is_text b \<Longrightarrow>
   add_cell (case a of Str s \<Rightarrow> Str (s @ x) | _ \<Rightarrow> NaN) b =
     Inr (case (a, b) of (Str s, Str u) \<Rightarrow> Str (s @ x @ u) | _ \<Rightarrow> NaN)"
  by (cases a; cases b) auto

lemma text_column_filter:
  "text_column df c \<Longrightarrow> text_column (df\<lparr>rows := filter P (rows df)\<rparr>) c"
  by (simp add: text_column_def list_all_iff)

lemma derive_keys_text:
  assumes "text_column f ''Pipeline name''" and "text_column f ''Run start''"
  shows "derive_keys f =
     Inr (Object, map (\<lambda>r. case (r ''Pipeline name'', r ''Run start'') of
                              (Str a, Str b) \<Rightarrow> Str (a @ '' - '' @ b) | _ \<Rightarrow> NaN) (rows f))"
proof -
  have n: "getitem f ''Pipeline name'' = Inr (Object, map (\<lambda>r. r ''Pipeline name'') (rows f))"
    and s: "getitem f ''Run start'' = Inr (Object, map (\<lambda>r. r ''Run start'') (rows f))"
    using assms by (simp_all add: text_column_def getitem_Some)
  have t: "\<And>r. r \<in> set (rows f) \<Longrightarrow> is_text (r ''Pipeline name'') \<and> is_text (r ''Run start'')"
    using assms by (simp add: text_column_def list_all_iff)
  have l: "add_scalar (Object, map (\<lambda>r. r ''Pipeline name'') (rows f)) '' - '' =
      Inr (Object,
           map (\<lambda>r. case r ''Pipeline name'' of Str a \<Rightarrow> Str (a @ '' - '') | _ \<Rightarrow> NaN) (rows f))"
    using t by (simp add: add_scalar_def comp_def collect_cong_Inr add_cell_text_scalar)
  have "collect (map (\<lambda>r. add_cell
                (case r ''Pipeline name'' of Str a \<Rightarrow> Str (a @ '' - '') | _ \<Rightarrow> NaN)
                (r ''Run start'')) (rows f)) =
      Inr (map (\<lambda>r. case (r ''Pipeline name'', r ''Run start'') of
                              (Str a, Str b) \<Rightarrow> Str (a @ '' - '' @ b) | _ \<Rightarrow> NaN) (rows f))"
    by (rule collect_cong_Inr) (use t in \<open>simp add: add_cell_text_text\<close>)
  then have "add_series
        (Object,
         map (\<lambda>r. case r ''Pipeline name'' of Str a \<Rightarrow> Str (a @ '' - '') | _ \<Rightarrow> NaN) (rows f))
        (Object, map (\<lambda>r. r ''Run start'') (rows f)) =
      Inr (Object, map (\<lambda>r. case (r ''Pipeline name'', r ''Run start'') of
                              (Str a, Str b) \<Rightarrow> Str (a @ '' - '' @ b) | _ \<Rightarrow> NaN) (rows f))"
    by (simp add: add_series_def zip_map_map zip_same_conv_map comp_def)
  then show ?thesis
    by (simp add: derive_keys_def n s l)
qed

lemma resolve_keys:
  "resolve (setitem f ''PipelineKey'' (Object, map K (rows f))) sel =
     Inr ((setitem f ''PipelineKey'' (Object, map K (rows f)))
            \<lparr>rows := map (\<lambda>r. r(''PipelineKey'' := K r))
                       (filter (\<lambda>r. py_eq (K r) sel) (rows f))\<rparr>)"
proof -
  have "map fst (filter snd (zip (map (\<lambda>r. r(''PipelineKey'' := K r)) (rows f))
            (map (\<lambda>x. py_eq x sel) (map K (rows f))))) =
        map (\<lambda>r. r(''PipelineKey'' := K r)) (filter (\<lambda>r. py_eq (K r) sel) (rows f))"
    using select_map_map [of "\<lambda>r. r(''PipelineKey'' := K r)" "rows f" "\<lambda>r. py_eq (K r) sel"]
    by (simp add: comp_def)
  then show ?thesis
    by (simp add: resolve_def getitem_setitem_same eq_scalar_def select_rows_def rows_setitem)
qed

lemma error_text_of_rows:
  "error_text_of (df\<lparr>rows := r # rs\<rparr>) =
     (if has_column df ''Error'' then Inr (r ''Error'') else Inl KeyError)"
  by (simp add: error_text_of_def getitem_def has_column_iff split: option.splits)

lemma selectbox_mem: "ks \<noteq> [] \<Longrightarrow> selectbox ks i \<in> set ks"
  by (simp add: selectbox_def)

lemma resolvable_iff:
  assumes "sel \<in> set (map K rs)"
  shows "filter (\<lambda>r. py_eq (K r) sel) rs \<noteq> [] \<longleftrightarrow> \<not> isna sel"
  using assms by (auto simp: py_eq_def filter_empty_conv)

subsection \<open>The failure filter\<close>

lemma failure_filter_on:
  assumes "map_of (columns df) ''Status'' = Some Object"
  shows "failure_filter df True =
     Inr ([], df\<lparr>rows := filter (\<lambda>r. lower_cell (r ''Status'') = Str ''failed'') (rows df)\<rparr>,
          Some (df\<lparr>rows := filter (\<lambda>r. lower_cell (r ''Status'') = Str ''failed'') (rows df)\<rparr>))"
proof -
  have "map fst (filter snd
          (zip (rows df) (map (\<lambda>r. lower_cell (r ''Status'') = Str ''failed'') (rows df)))) =
        filter (\<lambda>r. lower_cell (r ''Status'') = Str ''failed'') (rows df)"
    by (rule select_rows_filter)
  then show ?thesis
    using assms
    by (simp add: failure_filter_def has_column_iff getitem_Some str_lower_def eq_scalar_def
        select_rows_def comp_def Let_def)
qed

lemma failure_filter_off: "failure_filter df False = Inr ([], df, None)"
  by (simp add: failure_filter_def)

lemma failure_filter_no_status:
  "\<not> has_column df ''Status'' \<Longrightarrow>
   failure_filter df True = Inr ([Warning_no_status], df, None)"
  by (simp add: failure_filter_def)

lemma failure_filter_not_text:
  "map_of (columns df) ''Status'' = Some t \<Longrightarrow> t \<noteq> Object \<Longrightarrow>
   failure_filter df True = Inl AttributeError"
  by (simp add: failure_filter_def has_column_iff getitem_Some str_lower_def)

subsection \<open>The diagnosis\<close>

lemma ask_ai_off: "\<not> show_failed_only w \<Longrightarrow> ask_ai invoke w b = ([], None, b)"
  by (simp add: ask_ai_def)

lemma ask_ai_unbound:
  "show_failed_only w \<Longrightarrow> ask_ai invoke w None = ([], Some NameError, None)"
  by (simp add: ask_ai_def)

lemma ask_ai_empty:
  "show_failed_only w \<Longrightarrow> empty_df f \<Longrightarrow> ask_ai invoke w (Some f) = ([], None, Some f)"
  by (simp add: ask_ai_def)

lemma ask_ai_keys:
  assumes "show_failed_only w" and "\<not> empty_df f"
    and "derive_keys f = Inr (Object, map K (rows f))"
  shows "ask_ai invoke w (Some f) =
     (case filter (\<lambda>r. py_eq (K r) (selectbox (map K (rows f)) (selected w))) (rows f) of
        [] \<Rightarrow> ([Selectbox (map K (rows f))], None,
               Some (setitem f ''PipelineKey'' (Object, map K (rows f))))
      | r # rs \<Rightarrow>
          (if has_column f ''Error'' then
             (if analyze_clicked w
              then (Selectbox (map K (rows f)) # Button #
                      fst (analyze invoke (selectbox (map K (rows f)) (selected w)) (r ''Error'')),
                    snd (analyze invoke (selectbox (map K (rows f)) (selected w)) (r ''Error'')),
                    Some (setitem f ''PipelineKey'' (Object, map K (rows f))))
              else ([Selectbox (map K (rows f)), Button], None,
                    Some (setitem f ''PipelineKey'' (Object, map K (rows f)))))
           else ([Selectbox (map K (rows f))], Some KeyError,
                 Some (setitem f ''PipelineKey'' (Object, map K (rows f))))))"
  using assms
  by (simp add: ask_ai_def Let_def resolve_keys empty_df_def columns_setitem_nonempty
      error_text_of_rows has_column_setitem split: list.splits prod.splits)

lemma analyze_events:
  "Selectbox ks \<notin> set (fst (analyze invoke k e))" "Button \<notin> set (fst (analyze invoke k e))"
  by (simp_all add: analyze_def split: sum.splits)

lemma analyze_missing:
  "Invoke k NaN \<in> set (fst (analyze invoke k NaN)) \<and>
   Info_no_error \<notin> set (fst (analyze invoke k NaN))"
  by (cases "invoke k NaN") (simp_all add: analyze_def)

lemma tab1_off: "\<not> show_failed_only w \<Longrightarrow> tab1 invoke w df = ([Show_table df], None, None)"
  by (simp add: tab1_def failure_filter_off ask_ai_off)

lemma tab1_on:
  assumes "show_failed_only w" and "map_of (columns df) ''Status'' = Some Object"
  shows "tab1 invoke w df =
     (Show_table (df\<lparr>rows := filter (\<lambda>r. lower_cell (r ''Status'') = Str ''failed'') (rows df)\<rparr>)
        # fst (ask_ai invoke w
            (Some (df\<lparr>rows := filter (\<lambda>r. lower_cell (r ''Status'') = Str ''failed'') (rows df)\<rparr>))),
      snd (ask_ai invoke w
            (Some (df\<lparr>rows := filter (\<lambda>r. lower_cell (r ''Status'') = Str ''failed'') (rows df)\<rparr>))))"
  using assms by (simp add: tab1_def failure_filter_on split: prod.splits)

subsection \<open>The example tables\<close>

lemmas lower_simps = lower_def lower_char_def ascii_upper_def ascii_lower_def

lemma run1_cells:
  "run1 ''Pipeline name'' = Str ''copy_sales''"
  "run1 ''Run start'' = Str ''6/10/2025, 5:03:19 PM''"
  "run1 ''Status'' = Str ''Succeeded''" "run1 ''Error'' = NaN"
  by (simp_all add: run1_def row_of_def)

lemma run2_cells:
  "run2 ''Pipeline name'' = Str ''load_orders''"
  "run2 ''Run start'' = Str ''6/10/2025, 6:10:00 PM''"
  "run2 ''Status'' = Str ''Failed''" "run2 ''Error'' = Str ''Timeout''"
  by (simp_all add: run2_def row_of_def)

lemma run3_cells:
  "run3 ''Pipeline name'' = Str ''load_orders''"
  "run3 ''Run start'' = Str ''6/11/2025, 6:10:00 PM''"
  "run3 ''Status'' = Str ''FAILED''" "run3 ''Error'' = NaN"
  by (simp_all add: run3_def row_of_def)

lemma run4_cells:
  "run4 ''Pipeline name'' = Str ''nightly_load''" "run4 ''Run start'' = NaN"
  "run4 ''Status'' = Str ''Failed''" "run4 ''Error'' = Str ''Timeout''"
  by (simp_all add: run4_def row_of_def)

lemma adf_columns_map_of:
  "map_of adf_columns ''Pipeline name'' = Some Object"
  "map_of adf_columns ''Run start'' = Some Object"
  "map_of adf_columns ''Status'' = Some Object"
  "map_of adf_columns ''Error'' = Some Object"
  by (simp_all add: adf_columns_def)

lemma adf_log_text:
  "text_column adf_log ''Status''" "text_column adf_log ''Pipeline name''"
  "text_column adf_log ''Run start''"
  by (simp_all add: text_column_def adf_log_def adf_columns_map_of run1_cells run2_cells
      run3_cells)

lemma missing_start_log_text:
  "text_column missing_start_log ''Status''" "text_column missing_start_log ''Pipeline name''"
  "text_column missing_start_log ''Run start''"
  by (simp_all add: text_column_def missing_start_log_def adf_columns_map_of run1_cells
      run4_cells)

lemma failed_rows_adf_log:
  "filter (\<lambda>r. lower_cell (r ''Status'') = Str ''failed'') (rows adf_log) = [run2, run3]"
  by (simp add: adf_log_def run1_cells run2_cells run3_cells lower_simps)

lemma failed_rows_missing_start_log:
  "filter (\<lambda>r. lower_cell (r ''Status'') = Str ''failed'') (rows missing_start_log) = [run4]"
  by (simp add: missing_start_log_def run1_cells run4_cells lower_simps)

lemma has_error_adf_log: "has_column adf_log ''Error''"
  by (simp add: has_column_def adf_log_def adf_columns_def)

subsection \<open>Counting values\<close>

lemma map_of_bump:
  "map_of (bump k t) = (map_of t)(k \<mapsto> (case map_of t k of None \<Rightarrow> 1 | Some n \<Rightarrow> Suc n))"
  by (induction t) (auto simp: fun_eq_iff)

lemma keys_bump:
  "map fst (bump k t) = (if k \<in> set (map fst t) then map fst t else map fst t @ [k])"
  by (induction k t rule: bump.induct) (auto simp: image_iff)

lemma value_count_snoc: "value_count (vs @ [v]) = bump v (value_count vs)"
  by (simp add: value_count_def)

text \<open>The keys of the hash table are the values in the order of their first occurrence.\<close>

lemma keys_value_count: "map fst (value_count vs) = rev (remdups (rev vs))"
proof (induction vs rule: rev_induct)
  case Nil
  then show ?case by (simp add: value_count_def)
next
  case (snoc v vs)
  have "set (map fst (value_count vs)) = set vs"
    by (simp add: snoc.IH)
  then show ?case
    by (simp add: value_count_snoc keys_bump snoc.IH)
qed

lemma distinct_keys_value_count: "distinct (map fst (value_count vs))"
  by (simp add: keys_value_count)

lemma map_of_value_count:
  "map_of (value_count vs) k = (if k \<in> set vs then Some (count_list vs k) else None)"
proof (induction vs rule: rev_induct)
  case Nil
  then show ?case by (simp add: value_count_def)
next
  case (snoc v vs)
  then show ?case
    by (auto simp: value_count_snoc map_of_bump)
qed


lemma map_of_mset_eq:
  assumes "mset ys = mset xs" and "distinct (map fst xs)"
  shows "map_of ys = map_of xs"
proof -
  have "mset (map fst ys) = mset (map fst xs)"
    using assms(1) by simp
  then have "distinct (map fst ys)"
    using assms(2) mset_eq_imp_distinct_iff by blast
  moreover have "set ys = set xs"
    using assms(1) by (rule mset_eq_setD)
  ultimately show ?thesis
    using assms(2) by (simp add: map_of_inject_set)
qed

lemma count_list_present:
  "\<not> isna k \<Longrightarrow>
   count_list (filter (\<lambda>v. \<not> isna v) (map g rs)) k = length (filter (\<lambda>r. g r = k) rs)"
  by (induction rs) auto

lemma get_count_value_counts:
  assumes "sorts_descending sort_desc" and "\<not> isna k"
  shows "get_count (value_counts sort_desc (t, map g rs)) k = length (filter (\<lambda>r. g r = k) rs)"
proof -
  let ?vs = "filter (\<lambda>v. \<not> isna v) (map g rs)"
  have "mset (sort_desc (value_count ?vs)) = mset (value_count ?vs)"
    using assms(1) by (simp add: sorts_descending_def)
  then have "map_of (sort_desc (value_count ?vs)) = map_of (value_count ?vs)"
    using distinct_keys_value_count by (rule map_of_mset_eq)
  then have "get_count (value_counts sort_desc (t, map g rs)) k =
      (if k \<in> set ?vs then count_list ?vs k else 0)"
    by (simp add: get_count_def value_counts_def map_of_value_count)
  also have "\<dots> = count_list ?vs k"
    by simp
  also have "\<dots> = length (filter (\<lambda>r. g r = k) rs)"
    using assms(2) by (rule count_list_present)
  finally show ?thesis .
qed

subsection \<open>Sorting the counts\<close>


lemma descending_rev: "descending (rev xs) \<longleftrightarrow> sorted (map snd xs)"
  by (simp add: descending_def sorted_wrt_rev sorted_map)

lemma stable_desc_sorts: "sorts_descending stable_desc"
  by (simp add: sorts_descending_def stable_desc_def descending_rev)







subsection \<open>Grouping by day\<close>

lemma groupby_size_keys:
  "map fst (groupby_size keys) = map Day (sort (remdups (List.map_filter day_of keys)))"
  by (simp add: groupby_size_def Let_def comp_def)

lemma groupby_size_mem:
  "(k, n) \<in> set (groupby_size keys) \<longleftrightarrow>
     (\<exists>d. k = Day d \<and> d \<in> set (List.map_filter day_of keys)
          \<and> n = count_list (List.map_filter day_of keys) d)"
  by (auto simp: groupby_size_def Let_def)

lemma groupby_size_total:
  "sum_list (map snd (groupby_size keys)) = length (List.map_filter day_of keys)"
proof -
  let ?days = "List.map_filter day_of keys"
  have "sum_list (map snd (groupby_size keys)) =
      sum_list (map (count_list ?days) (sort (remdups ?days)))"
    by (simp add: groupby_size_def Let_def comp_def)
  also have "\<dots> = sum (count_list ?days) (set (sort (remdups ?days)))"
    by (rule sum_list_distinct_conv_sum_set) simp
  also have "\<dots> = length ?days"
    by (simp add: sum_count_set)
  finally show ?thesis .
qed

lemma days_of_dates:
  "List.map_filter day_of (map (\<lambda>r. date_cell (g r)) rs) =
     map (\<lambda>r. case g r of Ts t \<Rightarrow> t div ns_per_day) (filter (\<lambda>r. \<exists>t. g r = Ts t) rs)"
proof (induction rs)
  case Nil
  then show ?case by (simp add: List.map_filter_simps)
next
  case (Cons r rs)
  then show ?case by (cases "g r") (simp_all add: List.map_filter_simps)
qed

lemma count_days_of_dates:
  "count_list (List.map_filter day_of (map (\<lambda>r. date_cell (g r)) rs)) d =
     length (filter (\<lambda>r. date_cell (g r) = Day d) rs)"
proof (induction rs)
  case Nil
  then show ?case by (simp add: List.map_filter_simps)
next
  case (Cons r rs)
  then show ?case by (cases "g r") (simp_all add: List.map_filter_simps)
qed

subsection \<open>The dashboard\<close>

lemma failed_counts_text:
  assumes "map_of (columns df) ''Status'' = Some Object"
    and "map_of (columns df) ''Pipeline name'' = Some t"
  shows "failed_counts sort_desc df =
     Inr (nlargest 5 sort_desc
            (value_counts sort_desc
               (t, map (\<lambda>r. r ''Pipeline name'')
                     (filter (\<lambda>r. lower_cell (r ''Status'') = Str ''failed'') (rows df)))))"
proof -
  have "map fst (filter snd
          (zip (rows df) (map (\<lambda>r. lower_cell (r ''Status'') = Str ''failed'') (rows df)))) =
        filter (\<lambda>r. lower_cell (r ''Status'') = Str ''failed'') (rows df)"
    by (rule select_rows_filter)
  then show ?thesis
    using assms
    by (simp add: failed_counts_def getitem_def str_lower_def eq_scalar_def select_rows_def
        comp_def)
qed

lemma tab2_required:
  "\<not> has_column df ''Status'' \<or> \<not> has_column df ''Pipeline name'' \<Longrightarrow>
   tab2 sort_desc parse df = ([Warning_required], None, df)"
  by (auto simp: tab2_def)

lemma tab2_not_text:
  "map_of (columns df) ''Status'' = Some t \<Longrightarrow> t \<noteq> Object \<Longrightarrow>
   has_column df ''Pipeline name'' \<Longrightarrow>
   tab2 sort_desc parse df = ([], Some AttributeError, df)"
  by (simp add: tab2_def has_column_iff getitem_def str_lower_def)

lemma tab2_text:
  assumes "map_of (columns df) ''Status'' = Some Object"
    and "map_of (columns df) ''Pipeline name'' = Some t"
  shows "tab2 sort_desc parse df =
     (let status = map (\<lambda>r. r ''Status'') (rows df);
          status_counts = value_counts sort_desc (Object, map lower_cell status);
          metrics = Metrics (get_count status_counts (Str ''succeeded''))
                      (get_count status_counts (Str ''failed''))
                      (get_count status_counts (Str ''inprogress''))
                      (get_count status_counts (Str ''queued''));
          pie = Pie (value_counts sort_desc (Object, status));
          top5 = nlargest 5 sort_desc
                   (value_counts sort_desc
                      (t, map (\<lambda>r. r ''Pipeline name'')
                            (filter (\<lambda>r. lower_cell (r ''Status'') = Str ''failed'') (rows df))))
      in (case map_of (columns df) ''Run start'' of
            None \<Rightarrow> ([metrics, pie, Bar top5], None, df)
          | Some t' \<Rightarrow>
              (let start = map (\<lambda>r. r ''Run start'') (rows df);
                   parsed = map (to_ts (snd (parse start))) start;
                   dates = map date_cell parsed
               in (if t' = Object \<and> fst (parse start) = Mixed_zones
                   then ([metrics, pie, Bar top5], Some AttributeError,
                         setitem df ''Run start'' (Object, parsed))
                   else ([metrics, pie, Bar top5, Line (groupby_size dates)], None,
                         setitem (setitem df ''Run start'' (Datetime, parsed)) ''Date''
                           (if dates \<noteq> [] \<and> list_all (\<lambda>d. d = NaT) dates
                            then Datetime else Object, dates))))))"
  using assms
  by (simp add: tab2_def has_column_iff getitem_def str_lower_def Let_def to_datetime_def
      dt_date_def failed_counts_text comp_def split: option.splits)

subsection \<open>What a run leaves in the two tables\<close>

lemma getitem_setitem_same_length:
  "length vs = length (rows df) \<Longrightarrow> getitem (setitem df c (t, vs)) c = Inr (t, vs)"
proof -
  assume l: "length vs = length (rows df)"
  have "map (\<lambda>r. r c) (map (\<lambda>(r, v). r(c := v)) (zip (rows df) vs)) = map snd (zip (rows df) vs)"
    by (simp add: comp_def case_prod_beta)
  also have "\<dots> = vs"
    using l by simp
  finally show ?thesis
    by (simp add: getitem_def setitem_def update_conv')
qed

lemma getitem_setitem_other_length:
  assumes "length vs = length (rows df)" and "c' \<noteq> c"
  shows "getitem (setitem df c (t, vs)) c' = getitem df c'"
proof -
  have "map (\<lambda>r. r c') (map (\<lambda>(r, v). r(c := v)) (zip (rows df) vs)) =
      map (\<lambda>r. r c') (map fst (zip (rows df) vs))"
    using assms(2) by (simp add: comp_def case_prod_beta)
  also have "\<dots> = map (\<lambda>r. r c') (rows df)"
    using assms(1) by simp
  finally show ?thesis
    using assms(2) by (simp add: getitem_def setitem_def update_conv' split: option.splits)
qed

lemma length_rows_setitem:
  "length vs = length (rows df) \<Longrightarrow> length (rows (setitem df c (t, vs))) = length (rows df)"
  by (simp add: setitem_def)

lemma tab1_binding:
  assumes "text_column df ''Status''" and "text_column df ''Pipeline name''"
    and "text_column df ''Run start''" and "show_failed_only w"
    and "filter (\<lambda>r. lower_cell (r ''Status'') = Str ''failed'') (rows df) \<noteq> []"
  shows "snd (snd (tab1 invoke w df)) =
     Some (setitem
             (df\<lparr>rows := filter (\<lambda>r. lower_cell (r ''Status'') = Str ''failed'') (rows df)\<rparr>)
             ''PipelineKey''
             (Object,
              map (\<lambda>r. case (r ''Pipeline name'', r ''Run start'') of
                          (Str a, Str b) \<Rightarrow> Str (a @ '' - '' @ b) | _ \<Rightarrow> NaN)
                (filter (\<lambda>r. lower_cell (r ''Status'') = Str ''failed'') (rows df))))"
proof -
  define F where "F = filter (\<lambda>r. lower_cell (r ''Status'') = Str ''failed'') (rows df)"
  define K :: "row \<Rightarrow> cell" where
    "K = (\<lambda>r. case (r ''Pipeline name'', r ''Run start'') of
                 (Str a, Str b) \<Rightarrow> Str (a @ '' - '' @ b) | _ \<Rightarrow> NaN)"
  define f where "f = df\<lparr>rows := F\<rparr>"
  have st: "map_of (columns df) ''Status'' = Some Object"
    using assms(1) by (simp add: text_column_def)
  have t1: "tab1 invoke w df =
      (Show_table f # fst (ask_ai invoke w (Some f)), snd (ask_ai invoke w (Some f)))"
    using tab1_on [OF assms(4) st] by (simp add: f_def F_def)
  have rf: "rows f = F"
    by (simp add: f_def)
  have "columns df \<noteq> []"
    using st by auto
  then have nonempty: "\<not> empty_df f"
    using assms(5) by (simp add: empty_df_def f_def F_def)
  have "text_column f ''Pipeline name''" "text_column f ''Run start''"
    using assms(2,3) by (simp_all add: f_def F_def text_column_filter)
  then have dk: "derive_keys f = Inr (Object, map K (rows f))"
    unfolding K_def by (rule derive_keys_text)
  have "snd (snd (ask_ai invoke w (Some f))) = Some (setitem f ''PipelineKey'' (Object, map K F))"
    by (simp add: ask_ai_keys [OF assms(4) nonempty dk, unfolded rf] split: list.splits)
  then show ?thesis
    by (simp add: t1 f_def F_def K_def)
qed

lemma app_df_after:
  "fst (snd (tab1 invoke w df)) = None \<Longrightarrow>
   df_after (app invoke sort_desc parse w (Some (Inr df))) = Some (snd (snd (tab2 sort_desc parse df)))
   \<and> failed_df_after (app invoke sort_desc parse w (Some (Inr df))) = snd (snd (tab1 invoke w df))"
  by (cases "tab1 invoke w df"; cases "tab2 sort_desc parse df") (simp add: app_def)

subsection \<open>The ranking\<close>



subsection \<open>The button's handler\<close>

lemma all_dropWhile: "(\<forall>x \<in> set (dropWhile P xs). P x) \<longleftrightarrow> (\<forall>x \<in> set xs. P x)"
  by (induction xs) auto

lemma strip_empty_iff: "strip s = [] \<longleftrightarrow> (\<forall>c \<in> set s. isspace c)"
  by (simp add: strip_def dropWhile_eq_Nil_conv all_dropWhile)

text \<open>An error text that is empty or white space only: the notice, and no call.\<close>

lemma analyze_blank:
  "\<forall>c \<in> set s. isspace c \<Longrightarrow> analyze invoke k (Str s) = ([Info_no_error], None)"
  by (simp add: analyze_def strip_empty_iff)

text \<open>An error text with a character that is not white space: one call, and no notice.\<close>

lemma analyze_text:
  assumes "\<exists>c \<in> set s. \<not> isspace c"
  shows "length (filter (\<lambda>e. \<exists>a b. e = Invoke a b) (fst (analyze invoke k (Str s)))) = 1
       \<and> Invoke k (Str s) \<in> set (fst (analyze invoke k (Str s)))
       \<and> Info_no_error \<notin> set (fst (analyze invoke k (Str s)))"
proof -
  have "s \<noteq> []" and "strip s \<noteq> []"
    using assms by (auto simp: strip_empty_iff)
  then show ?thesis
    by (cases "invoke k (Str s)") (simp_all add: analyze_def)
qed

subsection \<open>The example tables of the dashboard\<close>

lemma named_cells:
  "named n s ''Pipeline name'' = Str n" "named n s ''Status'' = Str s"
  by (simp_all add: named_def row_of_def)

lemma run5_cells:
  "run5 ''Pipeline name'' = Str ''copy_sales''" "run5 ''Run start'' = Str ''yesterday''"
  "run5 ''Status'' = Str ''Queued''" "run5 ''Error'' = NaN"
  by (simp_all add: run5_def row_of_def)

lemma run6_cells:
  "run6 ''Pipeline name'' = Str ''copy_sales''"
  "run6 ''Run start'' = Str ''2025-06-10T17:03:19+01:00''"
  "run6 ''Status'' = Str ''Succeeded''" "run6 ''Error'' = NaN"
  by (simp_all add: run6_def row_of_def)

lemma run7_cells:
  "run7 ''Pipeline name'' = Str ''load_orders''"
  "run7 ''Run start'' = Str ''2025-06-11T18:10:00+02:00''"
  "run7 ''Status'' = Str ''Failed''" "run7 ''Error'' = Str ''Timeout''"
  by (simp_all add: run7_def row_of_def)

lemma toy_reading_simps:
  "toy_reading ''6/10/2025, 5:03:19 PM'' = Some 1749574999000000000"
  "toy_reading ''6/10/2025, 6:10:00 PM'' = Some 1749579000000000000"
  "toy_reading ''6/11/2025, 6:10:00 PM'' = Some 1749665400000000000"
  "toy_reading ''2025-06-10T17:03:19+01:00'' = Some 1749574999000000000"
  "toy_reading ''2025-06-11T18:10:00+02:00'' = Some 1749665400000000000"
  "toy_reading ''yesterday'' = None"
  by (simp_all add: toy_reading_def toy_times_def)

lemma offset_of_simps:
  "offset_of (Str ''6/10/2025, 5:03:19 PM'') = Some None"
  "offset_of (Str ''6/10/2025, 6:10:00 PM'') = Some None"
  "offset_of (Str ''6/11/2025, 6:10:00 PM'') = Some None"
  "offset_of (Str ''2025-06-10T17:03:19+01:00'') = Some (Some 60)"
  "offset_of (Str ''2025-06-11T18:10:00+02:00'') = Some (Some 120)"
  "offset_of (Str ''yesterday'') = None"
  "offset_of NaN = None"
  by (simp_all add: toy_times_def)

lemma snd_toy_parser: "snd (toy_parser column) = toy_reading"
  by (simp add: toy_parser_def)

lemma toy_parser_zones:
  "fst (toy_parser (map (\<lambda>r. r ''Run start'') [run1, run2, run3, run5])) = One_zone"
  "fst (toy_parser (map (\<lambda>r. r ''Run start'') [run1, run2, run3, run5, run4])) = One_zone"
  "fst (toy_parser (map (\<lambda>r. r ''Run start'') [run6, run7])) = Mixed_zones"
  by (simp_all add: toy_parser_def run1_cells run2_cells run3_cells run4_cells run5_cells
      run6_cells run7_cells offset_of_simps List.map_filter_simps del: offset_of.simps(1))

lemma offset_log_text:
  "text_column offset_log ''Status''" "text_column offset_log ''Pipeline name''"
  "text_column offset_log ''Run start''"
  by (simp_all add: text_column_def offset_log_def adf_columns_map_of run6_cells run7_cells)

text \<open>The dashboard on the two runs with different UTC offsets: the metrics and the two
  charts before line 143, then \<open>AttributeError\<close> on line 144; \<open>df\<close> keeps the column of
  line 143 and has no \<open>Date\<close> column.\<close>

lemma tab2_offset_log:
  "tab2 stable_desc toy_parser offset_log =
     ([Metrics 1 1 0 0, Pie [(Str ''Succeeded'', 1), (Str ''Failed'', 1)],
       Bar [(Str ''load_orders'', 1)]],
      Some AttributeError,
      setitem offset_log ''Run start''
        (Object, [Ts 1749574999000000000, Ts 1749665400000000000]))"
proof -
  have c: "map_of (columns offset_log) ''Status'' = Some Object"
    "map_of (columns offset_log) ''Pipeline name'' = Some Object"
    "map_of (columns offset_log) ''Run start'' = Some Object"
    by (simp_all add: offset_log_def adf_columns_map_of)
  have r: "rows offset_log = [run6, run7]"
    by (simp add: offset_log_def)
  have z: "fst (toy_parser [Str ''2025-06-10T17:03:19+01:00'',
                            Str ''2025-06-11T18:10:00+02:00'']) = Mixed_zones"
    using toy_parser_zones(3) by (simp add: run6_cells run7_cells)
  show ?thesis
    unfolding tab2_text [OF c(1,2)] Let_def c(3) r
    by (simp add: z snd_toy_parser run6_cells run7_cells toy_reading_simps lower_simps
        value_counts_def value_count_def stable_desc_def nlargest_def get_count_def)
qed

lemma dashboard_log_text:
  "text_column dashboard_log ''Status''" "text_column dashboard_log ''Pipeline name''"
  "text_column dashboard_log ''Run start''"
  by (simp_all add: text_column_def dashboard_log_def adf_columns_map_of run1_cells run2_cells
      run3_cells run4_cells run5_cells)

lemma failed_rows_dashboard_log:
  "filter (\<lambda>r. lower_cell (r ''Status'') = Str ''failed'') (rows dashboard_log) =
     [run2, run3, run4]"
  by (simp add: dashboard_log_def run1_cells run2_cells run3_cells run4_cells run5_cells
      lower_simps)

text \<open>What \<open>pd.to_datetime\<close> and \<open>.dt.date\<close> give for the cells of a text column.\<close>

lemma to_ts_text:
  "is_text c \<Longrightarrow>
   to_ts p c =
     (case c of Str s \<Rightarrow> (case p s of Some t \<Rightarrow> Ts t | None \<Rightarrow> NaT) | _ \<Rightarrow> NaT)"
  by (cases c) simp_all

lemma date_cell_case:
  "date_cell c = (case c of Ts t \<Rightarrow> Day (t div 86400000000000) | _ \<Rightarrow> NaT)"
  by (cases c) (simp_all add: ns_per_day_def)

text \<open>The \<open>Date\<close> column of a table in which no \<open>Run start\<close> parses has the datetime
  dtype.\<close>

lemma dt_date_all_NaT:
  "dt_date (Datetime, [NaT, NaT]) = Inr (Datetime, [NaT, NaT])"
  "dt_date (Datetime, [Ts 0, NaT]) = Inr (Object, [Day 0, NaT])"
  "dt_date (Datetime, []) = Inr (Object, [])"
  by (simp_all add: dt_date_def ns_per_day_def)

section \<open>The claims\<close>

text \<open>
  C1 (amended). For every table whose \<open>Status\<close> column \<open>read_csv\<close> read as text, the failure
  filter with the toggle on returns exactly the rows whose status lower-cased is
  \<open>failed\<close>, in the table's row order, with the columns unchanged, and that is the table
  line 50 shows; with the toggle off it returns the table itself, whatever its columns.
\<close>

theorem failure_filter_rows:
  "map_of (columns df) ''Status'' = Some Object \<Longrightarrow>
     failure_filter df True =
       Inr ([],
            df\<lparr>rows := filter (\<lambda>r. lower_cell (r ''Status'') = Str ''failed'') (rows df)\<rparr>,
            Some (df\<lparr>rows :=
                       filter (\<lambda>r. lower_cell (r ''Status'') = Str ''failed'') (rows df)\<rparr>))
     \<and> failure_filter df False = Inr ([], df, None)
     \<and> (show_failed_only w \<longrightarrow>
          (\<exists>es. fst (tab1 invoke w df) =
             Show_table
               (df\<lparr>rows := filter (\<lambda>r. lower_cell (r ''Status'') = Str ''failed'') (rows df)\<rparr>)
             # es))
     \<and> (\<not> show_failed_only w \<longrightarrow> fst (tab1 invoke w df) = [Show_table df])"
  by (simp add: failure_filter_on failure_filter_off tab1_on tab1_off)

theorem failure_filter_rows_witness:
  "map_of (columns adf_log) ''Status'' = Some Object
   \<and> failure_filter adf_log True =
       Inr ([], adf_log\<lparr>rows := [run2, run3]\<rparr>, Some (adf_log\<lparr>rows := [run2, run3]\<rparr>))
   \<and> failure_filter adf_log False = Inr ([], adf_log, None)
   \<and> show_failed_only toggle_on
   \<and> (\<exists>es. fst (tab1 canned_reply toggle_on adf_log) =
             Show_table (adf_log\<lparr>rows := [run2, run3]\<rparr>) # es)"
proof -
  have c: "map_of (columns adf_log) ''Status'' = Some Object"
    by (simp add: adf_log_def adf_columns_map_of)
  have w: "show_failed_only toggle_on"
    by (simp add: toggle_on_def)
  show ?thesis
    using failure_filter_rows [OF c, of toggle_on canned_reply] c w
    by (simp add: failed_rows_adf_log)
qed

text \<open>
  C1 as stated fails on a table whose \<open>Status\<close> column holds numbers: \<open>.str\<close> raises
  \<open>AttributeError\<close> on line 40 and the run ends there, before any table is shown.
\<close>

theorem numeric_status_filter_raises:
  "has_column numeric_status_log ''Status''
   \<and> failure_filter numeric_status_log True = Inl AttributeError
   \<and> tab1 canned_reply toggle_on numeric_status_log = ([], Some AttributeError, None)"
proof -
  have "map_of (columns numeric_status_log) ''Status'' = Some Numeric"
    by (simp add: numeric_status_log_def)
  then have "failure_filter numeric_status_log True = Inl AttributeError"
    by (rule failure_filter_not_text) simp
  then show ?thesis
    by (simp add: tab1_def toggle_on_def has_column_def numeric_status_log_def)
qed

text \<open>
  C6, evaluated where the code departs from it: a table with no \<open>Status\<close> column and the
  toggle on. The warning is shown and the whole table is displayed, then line 53 reads
  \<open>failed_df\<close>, which no path has assigned: \<open>NameError\<close> ends the run, and tab 2 is
  never reached.
\<close>

theorem missing_status_raises:
  "app invoke sort_desc parse toggle_on (Some (Inr no_status_log)) =
     \<lparr>events = [Warning_no_status, Show_table no_status_log], raised = Some NameError,
      df_after = Some no_status_log, failed_df_after = None\<rparr>"
proof -
  have "\<not> has_column no_status_log ''Status''"
    by (simp add: has_column_def no_status_log_def)
  then have "failure_filter no_status_log (show_failed_only toggle_on) =
      Inr ([Warning_no_status], no_status_log, None)"
    by (simp add: failure_filter_no_status toggle_on_def)
  moreover have "ask_ai invoke toggle_on None = ([], Some NameError, None)"
    by (simp add: ask_ai_unbound toggle_on_def)
  ultimately have "tab1 invoke toggle_on no_status_log =
      ([Warning_no_status, Show_table no_status_log], Some NameError, None)"
    by (simp add: tab1_def)
  then show ?thesis
    by (simp add: app_def)
qed

text \<open>
  C2, evaluated where the code departs from it: the third run of \<open>adf_log\<close> failed and
  its \<open>Error\<close> field is empty, which \<open>read_csv\<close> reads as NaN. \<open>not nan\<close> is false and
  \<open>str(nan).strip()\<close> is \<open>nan\<close>, so the test of line 67 fails and the model is invoked on
  the missing text; no notice is shown.
\<close>

theorem missing_error_is_sent:
  "Invoke (Str ''load_orders - 6/11/2025, 6:10:00 PM'') NaN
     \<in> set (fst (tab1 invoke analyze_second adf_log))
   \<and> Info_no_error \<notin> set (fst (tab1 invoke analyze_second adf_log))"
proof -
  define K :: "row \<Rightarrow> cell" where
    "K = (\<lambda>r. case (r ''Pipeline name'', r ''Run start'') of
                 (Str a, Str b) \<Rightarrow> Str (a @ '' - '' @ b) | _ \<Rightarrow> NaN)"
  define f where "f = adf_log\<lparr>rows := [run2, run3]\<rparr>"
  let ?k = "Str ''load_orders - 6/11/2025, 6:10:00 PM''"
  have w: "show_failed_only analyze_second" "analyze_clicked analyze_second"
    "selected analyze_second = 1"
    by (simp_all add: analyze_second_def)
  have st: "map_of (columns adf_log) ''Status'' = Some Object"
    by (simp add: adf_log_def adf_columns_map_of)
  have rf: "rows f = [run2, run3]"
    by (simp add: f_def)
  have ne: "\<not> empty_df f"
    by (simp add: empty_df_def f_def adf_log_def adf_columns_def)
  have "text_column f ''Pipeline name''" "text_column f ''Run start''"
    using adf_log_text(2,3) text_column_filter [of adf_log _ "\<lambda>r. lower_cell (r ''Status'') = Str ''failed''"]
    by (simp_all add: f_def failed_rows_adf_log)
  then have dk: "derive_keys f = Inr (Object, map K (rows f))"
    unfolding K_def by (rule derive_keys_text)
  have ks: "K run2 = Str ''load_orders - 6/10/2025, 6:10:00 PM''" "K run3 = ?k"
    by (simp_all add: K_def run2_cells run3_cells)
  have he: "has_column f ''Error''"
    using has_error_adf_log by (simp add: has_column_def f_def)
  have "fst (ask_ai invoke analyze_second (Some f)) =
      Selectbox [Str ''load_orders - 6/10/2025, 6:10:00 PM'', ?k] # Button #
        fst (analyze invoke ?k NaN)"
    by (simp add: ask_ai_keys [OF w(1) ne dk] rf ks w selectbox_def he run3_cells)
  moreover have "tab1 invoke analyze_second adf_log =
      (Show_table f # fst (ask_ai invoke analyze_second (Some f)),
       snd (ask_ai invoke analyze_second (Some f)))"
    using tab1_on [OF w(1) st, of invoke] by (simp add: failed_rows_adf_log f_def)
  ultimately show ?thesis
    using analyze_missing [of ?k invoke] by simp
qed

text \<open>
  C3 (amended). Where \<open>Pipeline name\<close> and \<open>Run start\<close> are text columns of the failed
  subset \<open>f\<close>, line 57 gives each row the key \<open>name + " - " + start\<close>, built from the raw
  \<open>Run start\<close> string, when both fields are present, and a missing key (NaN) when either
  is empty. Resolving a selected string key (line 61) keeps the rows whose key equals
  it, in table order, and line 64 reads the \<open>Error\<close> field of the first of them.
\<close>

theorem pipeline_key_resolution:
  assumes "text_column f ''Pipeline name''" and "text_column f ''Run start''"
  shows "let key = (\<lambda>r. case (r ''Pipeline name'', r ''Run start'') of
                         (Str a, Str b) \<Rightarrow> Str (a @ '' - '' @ b) | _ \<Rightarrow> NaN);
             failed_df' = setitem f ''PipelineKey'' (Object, map key (rows f));
             selected_row =
               failed_df'\<lparr>rows := map (\<lambda>r. r(''PipelineKey'' := key r))
                                    (filter (\<lambda>r. key r = Str k) (rows f))\<rparr>
         in derive_keys f = Inr (Object, map key (rows f))
            \<and> resolve failed_df' (Str k) = Inr selected_row
            \<and> (\<forall>r. List.find (\<lambda>r. key r = Str k) (rows f) = Some r \<and> has_column f ''Error''
                   \<longrightarrow> error_text_of selected_row = Inr (r ''Error''))"
proof -
  define K :: "row \<Rightarrow> cell" where
    "K = (\<lambda>r. case (r ''Pipeline name'', r ''Run start'') of
                 (Str a, Str b) \<Rightarrow> Str (a @ '' - '' @ b) | _ \<Rightarrow> NaN)"
  define f' where "f' = setitem f ''PipelineKey'' (Object, map K (rows f))"
  have dk: "derive_keys f = Inr (Object, map K (rows f))"
    unfolding K_def using assms by (rule derive_keys_text)
  have res: "resolve f' (Str k) =
      Inr (f'\<lparr>rows := map (\<lambda>r. r(''PipelineKey'' := K r)) (filter (\<lambda>r. K r = Str k) (rows f))\<rparr>)"
    using resolve_keys [of f K "Str k"] by (simp add: f'_def)
  have err: "error_text_of
        (f'\<lparr>rows := map (\<lambda>r. r(''PipelineKey'' := K r)) (filter (\<lambda>r. K r = Str k) (rows f))\<rparr>) =
      Inr (r ''Error'')"
    if "List.find (\<lambda>r. K r = Str k) (rows f) = Some r" and "has_column f ''Error''" for r
  proof -
    from find_filter [OF that(1)]
    obtain rs where "filter (\<lambda>r. K r = Str k) (rows f) = r # rs" by auto
    then show ?thesis
      using that(2) by (simp add: error_text_of_rows f'_def has_column_setitem)
  qed
  show ?thesis
    using dk res err unfolding Let_def K_def f'_def by blast
qed

text \<open>
  C3 as stated fails on the failed row of \<open>missing_start_log\<close>, whose \<open>Run start\<close> field
  is empty: its key is the missing value, not the name followed by \<open>" - "\<close>.
\<close>

theorem missing_start_gives_missing_key:
  "failure_filter missing_start_log True =
     Inr ([], missing_start_log\<lparr>rows := [run4]\<rparr>, Some (missing_start_log\<lparr>rows := [run4]\<rparr>))
   \<and> run4 ''Pipeline name'' = Str ''nightly_load''
   \<and> derive_keys (missing_start_log\<lparr>rows := [run4]\<rparr>) = Inr (Object, [NaN])"
proof -
  have st: "map_of (columns missing_start_log) ''Status'' = Some Object"
    by (simp add: missing_start_log_def adf_columns_map_of)
  have "failure_filter missing_start_log True =
      Inr ([], missing_start_log\<lparr>rows := [run4]\<rparr>, Some (missing_start_log\<lparr>rows := [run4]\<rparr>))"
    using failure_filter_on [OF st] by (simp add: failed_rows_missing_start_log)
  moreover have "text_column (missing_start_log\<lparr>rows := [run4]\<rparr>) ''Pipeline name''"
    "text_column (missing_start_log\<lparr>rows := [run4]\<rparr>) ''Run start''"
    using missing_start_log_text(2,3)
      text_column_filter [of missing_start_log _ "\<lambda>r. lower_cell (r ''Status'') = Str ''failed''"]
    by (simp_all add: failed_rows_missing_start_log)
  then have "derive_keys (missing_start_log\<lparr>rows := [run4]\<rparr>) = Inr (Object, [NaN])"
    using derive_keys_text [of "missing_start_log\<lparr>rows := [run4]\<rparr>"]
    by (simp add: run4_cells)
  ultimately show ?thesis
    by (simp add: run4_cells)
qed

theorem pipeline_key_resolution_witness:
  "text_column (adf_log\<lparr>rows := [run2, run3]\<rparr>) ''Pipeline name''
   \<and> text_column (adf_log\<lparr>rows := [run2, run3]\<rparr>) ''Run start''
   \<and> derive_keys (adf_log\<lparr>rows := [run2, run3]\<rparr>) =
       Inr (Object, [Str ''load_orders - 6/10/2025, 6:10:00 PM'',
                     Str ''load_orders - 6/11/2025, 6:10:00 PM''])
   \<and> error_text_of
        ((setitem (adf_log\<lparr>rows := [run2, run3]\<rparr>) ''PipelineKey''
            (Object, [Str ''load_orders - 6/10/2025, 6:10:00 PM'',
                      Str ''load_orders - 6/11/2025, 6:10:00 PM'']))
          \<lparr>rows := [run2(''PipelineKey'' := Str ''load_orders - 6/10/2025, 6:10:00 PM'')]\<rparr>) =
       Inr (Str ''Timeout'')"
proof -
  let ?f = "adf_log\<lparr>rows := [run2, run3]\<rparr>"
  have t: "text_column ?f ''Pipeline name''" "text_column ?f ''Run start''"
    using adf_log_text(2,3)
      text_column_filter [of adf_log _ "\<lambda>r. lower_cell (r ''Status'') = Str ''failed''"]
    by (simp_all add: failed_rows_adf_log)
  have he: "has_column ?f ''Error''"
    using has_error_adf_log by (simp add: has_column_def)
  show ?thesis
    using pipeline_key_resolution [OF t, of "''load_orders - 6/10/2025, 6:10:00 PM''"] t he
    by (simp add: Let_def run2_cells run3_cells)
qed

lemma tab1_offers:
  assumes "text_column df ''Status''" and "text_column df ''Pipeline name''"
    and "text_column df ''Run start''" and "show_failed_only w"
  shows "((\<exists>ks. Selectbox ks \<in> set (fst (tab1 invoke w df))) \<longleftrightarrow>
            filter (\<lambda>r. lower_cell (r ''Status'') = Str ''failed'') (rows df) \<noteq> [])
      \<and> (Button \<in> set (fst (tab1 invoke w df)) \<longleftrightarrow>
            filter (\<lambda>r. lower_cell (r ''Status'') = Str ''failed'') (rows df) \<noteq> []
            \<and> has_column df ''Error''
            \<and> \<not> isna (selectbox
                  (map (\<lambda>r. case (r ''Pipeline name'', r ''Run start'') of
                              (Str a, Str b) \<Rightarrow> Str (a @ '' - '' @ b) | _ \<Rightarrow> NaN)
                     (filter (\<lambda>r. lower_cell (r ''Status'') = Str ''failed'') (rows df)))
                  (selected w)))"
proof -
  define F where "F = filter (\<lambda>r. lower_cell (r ''Status'') = Str ''failed'') (rows df)"
  define K :: "row \<Rightarrow> cell" where
    "K = (\<lambda>r. case (r ''Pipeline name'', r ''Run start'') of
                 (Str a, Str b) \<Rightarrow> Str (a @ '' - '' @ b) | _ \<Rightarrow> NaN)"
  define f where "f = df\<lparr>rows := F\<rparr>"
  have st: "map_of (columns df) ''Status'' = Some Object"
    using assms(1) by (simp add: text_column_def)
  have t1: "tab1 invoke w df =
      (Show_table f # fst (ask_ai invoke w (Some f)), snd (ask_ai invoke w (Some f)))"
    using tab1_on [OF assms(4) st] by (simp add: f_def F_def)
  have rf: "rows f = F" and cf: "columns f = columns df"
    by (simp_all add: f_def)
  have ne: "columns df \<noteq> []"
    using st by auto
  show ?thesis
  proof (cases "F = []")
    case True
    then have "empty_df f"
      by (simp add: empty_df_def rf)
    with assms(4) have "ask_ai invoke w (Some f) = ([], None, Some f)"
      by (rule ask_ai_empty)
    then show ?thesis
      using True by (simp add: t1 F_def)
  next
    case False
    then have nonempty: "\<not> empty_df f"
      by (simp add: empty_df_def rf cf ne)
    have "text_column f ''Pipeline name''" "text_column f ''Run start''"
      using assms(2,3) by (simp_all add: f_def F_def text_column_filter)
    then have dk: "derive_keys f = Inr (Object, map K (rows f))"
      unfolding K_def by (rule derive_keys_text)
    have sel: "selectbox (map K F) (selected w) \<in> set (map K F)"
      using False by (intro selectbox_mem) simp
    note a = ask_ai_keys [OF assms(4) nonempty dk, of invoke, unfolded rf]
    have r: "filter (\<lambda>r. py_eq (K r) (selectbox (map K F) (selected w))) F \<noteq> [] \<longleftrightarrow>
        \<not> isna (selectbox (map K F) (selected w))"
      using sel by (rule resolvable_iff)
    have hc: "has_column f ''Error'' = has_column df ''Error''"
      by (simp add: has_column_def cf)
    have "Selectbox (map K F) \<in> set (fst (ask_ai invoke w (Some f)))"
      by (simp add: a split: list.splits)
    then have "\<exists>ks. Selectbox ks \<in> set (fst (ask_ai invoke w (Some f)))" ..
    moreover have "Button \<in> set (fst (ask_ai invoke w (Some f))) \<longleftrightarrow>
        has_column df ''Error'' \<and> \<not> isna (selectbox (map K F) (selected w))"
      unfolding r [symmetric]
      by (simp add: a hc analyze_events split: list.splits)
    ultimately show ?thesis
      using False by (simp add: t1 F_def K_def)
  qed
qed

text \<open>
  C9 (amended). On a table whose \<open>Status\<close>, \<open>Pipeline name\<close> and \<open>Run start\<close> columns are
  text: the selector is offered exactly when the toggle is on and the failed subset is
  not empty; the analyze button is offered exactly when, moreover, the table has an
  \<open>Error\<close> column and the selected key is not missing (line 63 skips the button when no
  row has the selected key, and a missing key equals no key). With the toggle off
  nothing but the table is shown, on any table.
\<close>

theorem diagnosis_gating:
  assumes "text_column df ''Status''" and "text_column df ''Pipeline name''"
    and "text_column df ''Run start''"
  shows "((\<exists>ks. Selectbox ks \<in> set (fst (tab1 invoke w df))) \<longleftrightarrow>
            show_failed_only w
            \<and> filter (\<lambda>r. lower_cell (r ''Status'') = Str ''failed'') (rows df) \<noteq> [])
      \<and> (Button \<in> set (fst (tab1 invoke w df)) \<longleftrightarrow>
            show_failed_only w
            \<and> filter (\<lambda>r. lower_cell (r ''Status'') = Str ''failed'') (rows df) \<noteq> []
            \<and> has_column df ''Error''
            \<and> \<not> isna (selectbox
                  (map (\<lambda>r. case (r ''Pipeline name'', r ''Run start'') of
                              (Str a, Str b) \<Rightarrow> Str (a @ '' - '' @ b) | _ \<Rightarrow> NaN)
                     (filter (\<lambda>r. lower_cell (r ''Status'') = Str ''failed'') (rows df)))
                  (selected w)))
      \<and> (\<not> show_failed_only w \<longrightarrow> fst (tab1 invoke w df) = [Show_table df])"
proof (cases "show_failed_only w")
  case False
  then show ?thesis
    by (simp add: tab1_off)
next
  case True
  with tab1_offers [OF assms True, of invoke] show ?thesis
    by simp
qed

theorem diagnosis_gating_witness:
  "text_column adf_log ''Status'' \<and> text_column adf_log ''Pipeline name''
   \<and> text_column adf_log ''Run start''
   \<and> (\<exists>ks. Selectbox ks \<in> set (fst (tab1 canned_reply analyze_second adf_log)))
   \<and> Button \<in> set (fst (tab1 canned_reply analyze_second adf_log))
   \<and> fst (tab1 canned_reply toggle_off adf_log) = [Show_table adf_log]"
proof -
  have w: "show_failed_only analyze_second" "selected analyze_second = 1"
    "\<not> show_failed_only toggle_off"
    by (simp_all add: analyze_second_def toggle_off_def)
  have "(\<exists>ks. Selectbox ks \<in> set (fst (tab1 canned_reply analyze_second adf_log)))
      \<and> Button \<in> set (fst (tab1 canned_reply analyze_second adf_log))"
    using diagnosis_gating [OF adf_log_text, of canned_reply analyze_second]
    by (simp add: w failed_rows_adf_log has_error_adf_log selectbox_def run2_cells run3_cells)
  moreover have "fst (tab1 canned_reply toggle_off adf_log) = [Show_table adf_log]"
    using diagnosis_gating [OF adf_log_text, of canned_reply toggle_off] w(3) by simp
  ultimately show ?thesis
    using adf_log_text by simp
qed

text \<open>
  C9 as stated fails on \<open>missing_start_log\<close>: the toggle is on and the failed subset holds
  one row, the selector is offered with the row's missing key as its only option, and
  the button is not offered.
\<close>

theorem missing_key_offers_no_button:
  "show_failed_only toggle_on
   \<and> filter (\<lambda>r. lower_cell (r ''Status'') = Str ''failed'') (rows missing_start_log) = [run4]
   \<and> has_column missing_start_log ''Error''
   \<and> (\<exists>ks. Selectbox ks \<in> set (fst (tab1 canned_reply toggle_on missing_start_log)))
   \<and> Button \<notin> set (fst (tab1 canned_reply toggle_on missing_start_log))"
proof -
  have w: "show_failed_only toggle_on" "selected toggle_on = 0"
    by (simp_all add: toggle_on_def)
  have he: "has_column missing_start_log ''Error''"
    by (simp add: has_column_def missing_start_log_def adf_columns_def)
  show ?thesis
    using tab1_offers [OF missing_start_log_text w(1), of canned_reply]
    by (simp add: w he failed_rows_missing_start_log selectbox_def run4_cells)
qed

text \<open>
  C5 (amended). For every table with a text \<open>Status\<close> column and a \<open>Pipeline name\<close>
  column, the dashboard's first output is the four metrics, and they are the numbers of
  rows whose status lower-cased is \<open>succeeded\<close>, \<open>failed\<close>, \<open>inprogress\<close> and \<open>queued\<close>; a
  status that does not occur counts as zero: the metrics are shown, so lines 98-104 have
  raised nothing. This holds whatever order pandas' sort gives equal counts and whatever
  the later lines of the dashboard do. The whole dashboard raises nothing when the table
  has no \<open>Run start\<close> column or \<open>pd.to_datetime\<close> turns it into a datetime column.
\<close>

theorem dashboard_metrics:
  assumes "map_of (columns df) ''Status'' = Some Object"
    and "has_column df ''Pipeline name''"
    and "sorts_descending sort_desc"
  shows "(\<exists>others. fst (tab2 sort_desc parse df) =
            Metrics (length (filter (\<lambda>r. lower_cell (r ''Status'') = Str ''succeeded'') (rows df)))
                    (length (filter (\<lambda>r. lower_cell (r ''Status'') = Str ''failed'') (rows df)))
                    (length (filter (\<lambda>r. lower_cell (r ''Status'') = Str ''inprogress'') (rows df)))
                    (length (filter (\<lambda>r. lower_cell (r ''Status'') = Str ''queued'') (rows df)))
            # others)
       \<and> (map_of (columns df) ''Run start'' \<noteq> Some Object
            \<or> fst (parse (map (\<lambda>r. r ''Run start'') (rows df))) = One_zone
          \<longrightarrow> fst (snd (tab2 sort_desc parse df)) = None)"
proof -
  from assms(2) obtain t where pn: "map_of (columns df) ''Pipeline name'' = Some t"
    by (auto simp: has_column_iff)
  have c: "get_count
        (value_counts sort_desc (Object, map (\<lambda>r. lower_cell (r ''Status'')) (rows df)))
        (Str s) =
      length (filter (\<lambda>r. lower_cell (r ''Status'') = Str s) (rows df))" for s
    using get_count_value_counts [OF assms(3), of "Str s" Object "\<lambda>r. lower_cell (r ''Status'')" "rows df"]
    by simp
  let ?counts = "value_counts sort_desc (Object, map (\<lambda>r. lower_cell (r ''Status'')) (rows df))"
  have "\<exists>others. fst (tab2 sort_desc parse df) =
      Metrics (get_count ?counts (Str ''succeeded'')) (get_count ?counts (Str ''failed''))
        (get_count ?counts (Str ''inprogress'')) (get_count ?counts (Str ''queued''))
      # others"
    by (simp add: tab2_text [OF assms(1) pn] Let_def comp_def split: option.splits)
  then have metrics: "\<exists>others. fst (tab2 sort_desc parse df) =
      Metrics (length (filter (\<lambda>r. lower_cell (r ''Status'') = Str ''succeeded'') (rows df)))
        (length (filter (\<lambda>r. lower_cell (r ''Status'') = Str ''failed'') (rows df)))
        (length (filter (\<lambda>r. lower_cell (r ''Status'') = Str ''inprogress'') (rows df)))
        (length (filter (\<lambda>r. lower_cell (r ''Status'') = Str ''queued'') (rows df)))
      # others"
    by (simp only: c)
  have "fst (snd (tab2 sort_desc parse df)) = None"
    if "map_of (columns df) ''Run start'' \<noteq> Some Object
        \<or> fst (parse (map (\<lambda>r. r ''Run start'') (rows df))) = One_zone"
    using that
    by (auto simp: tab2_text [OF assms(1) pn] Let_def comp_def split: option.splits)
  with metrics show ?thesis
    by blast
qed

theorem dashboard_metrics_witness:
  "map_of (columns kpi_log) ''Status'' = Some Object
   \<and> has_column kpi_log ''Pipeline name''
   \<and> sorts_descending stable_desc
   \<and> (\<exists>others. fst (tab2 stable_desc toy_parser kpi_log) = Metrics 2 2 0 1 # others)
   \<and> map_of (columns kpi_log) ''Run start'' = None
   \<and> fst (snd (tab2 stable_desc toy_parser kpi_log)) = None"
proof -
  have c: "map_of (columns kpi_log) ''Status'' = Some Object"
    and p: "has_column kpi_log ''Pipeline name''"
    by (simp_all add: kpi_log_def has_column_def)
  have n: "length (filter (\<lambda>r. lower_cell (r ''Status'') = Str ''succeeded'') (rows kpi_log)) = 2"
    "length (filter (\<lambda>r. lower_cell (r ''Status'') = Str ''failed'') (rows kpi_log)) = 2"
    "length (filter (\<lambda>r. lower_cell (r ''Status'') = Str ''inprogress'') (rows kpi_log)) = 0"
    "length (filter (\<lambda>r. lower_cell (r ''Status'') = Str ''queued'') (rows kpi_log)) = 1"
    by (simp_all add: kpi_log_def named_cells lower_simps)
  have s: "map_of (columns kpi_log) ''Run start'' = None"
    by (simp add: kpi_log_def)
  from dashboard_metrics [OF c p stable_desc_sorts, of toy_parser]
  have "(\<exists>others. fst (tab2 stable_desc toy_parser kpi_log) = Metrics 2 2 0 1 # others)
      \<and> fst (snd (tab2 stable_desc toy_parser kpi_log)) = None"
    unfolding n by (simp add: s)
  then show ?thesis
    using c p s stable_desc_sorts by simp
qed

text \<open>
  C5 as stated fails on a table that has a \<open>Status\<close> column and no \<open>Pipeline name\<close> column:
  the guard of line 92 shows a warning and no metric. It also fails on a \<open>Status\<close> column
  of numbers, where line 98 raises \<open>AttributeError\<close>.
\<close>

theorem status_alone_gives_no_metrics:
  "has_column status_only_log ''Status''
   \<and> tab2 stable_desc toy_parser status_only_log = ([Warning_required], None, status_only_log)
   \<and> has_column numeric_status_log ''Status''
   \<and> tab2 stable_desc toy_parser numeric_status_log =
       ([], Some AttributeError, numeric_status_log)"
proof -
  have "\<not> has_column status_only_log ''Pipeline name''"
    by (simp add: has_column_def status_only_log_def)
  then have "tab2 stable_desc toy_parser status_only_log =
      ([Warning_required], None, status_only_log)"
    by (simp add: tab2_required)
  moreover have "tab2 stable_desc toy_parser numeric_status_log =
      ([], Some AttributeError, numeric_status_log)"
    by (rule tab2_not_text [where t = Numeric])
      (simp_all add: numeric_status_log_def has_column_def)
  ultimately show ?thesis
    by (simp add: has_column_def status_only_log_def numeric_status_log_def)
qed

lemma date_cell_NaT_iff: "date_cell (to_ts p c) \<noteq> NaT \<longleftrightarrow> (\<exists>t. to_ts p c = Ts t)"
  by (cases c) (auto split: option.splits)

text \<open>
  C7 (amended). For every table with a text \<open>Status\<close> column, a \<open>Pipeline name\<close> column and
  a \<open>Run start\<close> column that \<open>pd.to_datetime\<close> turns into a datetime column (a numeric
  column, or a text column whose timestamps do not differ in their UTC offset), the
  dashboard ends with the daily runs and raises nothing, whatever the \<open>Run start\<close> fields
  hold and whichever of them the parser accepts. The daily runs have one entry per
  calendar day of a parsed \<open>Run start\<close>, in ascending order of the days, with the number
  of rows of that day; a row whose \<open>Run start\<close> does not parse (NaT) is in no entry, so
  the entries add up to the number of rows that parse. The day of a row is the day of
  the parser's reading of its string; a string the parser rejects, an empty field and
  the number \<open>-9223372036854775808\<close> have no day.
\<close>

theorem daily_runs_buckets:
  assumes "map_of (columns df) ''Status'' = Some Object"
    and "has_column df ''Pipeline name''"
    and "has_column df ''Run start''"
    and "map_of (columns df) ''Run start'' \<noteq> Some Object
         \<or> fst (parse (map (\<lambda>r. r ''Run start'') (rows df))) = One_zone"
  shows "let reading = snd (parse (map (\<lambda>r. r ''Run start'') (rows df)));
             day = (\<lambda>r. date_cell (to_ts reading (r ''Run start'')))
         in (\<exists>before daily_runs days.
               fst (tab2 sort_desc parse df) = before @ [Line daily_runs]
             \<and> fst (snd (tab2 sort_desc parse df)) = None
             \<and> map fst daily_runs = map Day days \<and> sorted days \<and> distinct days
             \<and> (\<forall>d n. (Day d, n) \<in> set daily_runs \<longleftrightarrow>
                    n = length (filter (\<lambda>r. day r = Day d) (rows df)) \<and> 0 < n)
             \<and> sum_list (map snd daily_runs) = length (filter (\<lambda>r. day r \<noteq> NaT) (rows df)))
          \<and> (\<forall>r s. r ''Run start'' = Str s \<longrightarrow>
                 day r = (case reading s of
                            Some t \<Rightarrow> Day (t div 86400000000000) | None \<Rightarrow> NaT))
          \<and> (\<forall>r n. r ''Run start'' = Num n \<longrightarrow>
                 day r = (if - (2 ^ 63) < n \<and> n < 2 ^ 63
                          then Day (n div 86400000000000) else NaT))
          \<and> (\<forall>r. r ''Run start'' = NaN \<longrightarrow> day r = NaT)"
proof -
  define start where "start = map (\<lambda>r. r ''Run start'') (rows df)"
  define g where "g = (\<lambda>r. to_ts (snd (parse start)) (r ''Run start''))"
  define keys where "keys = map (\<lambda>r. date_cell (g r)) (rows df)"
  define days where "days = sort (remdups (List.map_filter day_of keys))"
  from assms(2) obtain t where pn: "map_of (columns df) ''Pipeline name'' = Some t"
    by (auto simp: has_column_iff)
  from assms(3) obtain t' where rs: "map_of (columns df) ''Run start'' = Some t'"
    by (auto simp: has_column_iff)
  have "\<not> (t' = Object \<and> fst (parse start) = Mixed_zones)"
    using assms(4) rs by (auto simp: start_def)
  then have datetime: "(if t' = Object \<and> fst (parse start) = Mixed_zones then a else b) = b"
    for a b :: "event list \<times> py_error option \<times> dataframe"
    by auto
  have start_map: "map h start = map (\<lambda>r. h (r ''Run start'')) (rows df)" for h :: "cell \<Rightarrow> cell"
    by (simp add: start_def comp_def)
  have ev: "\<exists>before. fst (tab2 sort_desc parse df) = before @ [Line (groupby_size keys)]"
    and ok: "fst (snd (tab2 sort_desc parse df)) = None"
    unfolding tab2_text [OF assms(1) pn] Let_def rs start_def [symmetric]
    by (simp_all add: datetime keys_def g_def comp_def start_map)
  have k: "map fst (groupby_size keys) = map Day days" "sorted days" "distinct days"
    by (simp_all add: days_def groupby_size_keys)
  have cnt: "count_list (List.map_filter day_of keys) d =
      length (filter (\<lambda>r. date_cell (g r) = Day d) (rows df))" for d
    unfolding keys_def by (rule count_days_of_dates)
  have m: "(Day d, n) \<in> set (groupby_size keys) \<longleftrightarrow>
      n = length (filter (\<lambda>r. date_cell (g r) = Day d) (rows df)) \<and> 0 < n" for d n
  proof -
    have "d \<in> set (List.map_filter day_of keys) \<longleftrightarrow>
        0 < length (filter (\<lambda>r. date_cell (g r) = Day d) (rows df))"
      using count_list_0_iff [of "List.map_filter day_of keys" d] by (simp add: cnt)
    then show ?thesis
      by (auto simp: groupby_size_mem cnt)
  qed
  have "length (List.map_filter day_of keys) = length (filter (\<lambda>r. \<exists>t. g r = Ts t) (rows df))"
    unfolding keys_def by (simp add: days_of_dates)
  also have "\<dots> = length (filter (\<lambda>r. date_cell (g r) \<noteq> NaT) (rows df))"
    by (simp add: g_def date_cell_NaT_iff)
  finally have tot: "sum_list (map snd (groupby_size keys)) =
      length (filter (\<lambda>r. date_cell (g r) \<noteq> NaT) (rows df))"
    by (simp add: groupby_size_total)
  from ev obtain before where "fst (tab2 sort_desc parse df) = before @ [Line (groupby_size keys)]"
    by blast
  with ok k m tot have
    "\<exists>before daily_runs days.
        fst (tab2 sort_desc parse df) = before @ [Line daily_runs]
      \<and> fst (snd (tab2 sort_desc parse df)) = None
      \<and> map fst daily_runs = map Day days \<and> sorted days \<and> distinct days
      \<and> (\<forall>d n. (Day d, n) \<in> set daily_runs \<longleftrightarrow>
             n = length (filter (\<lambda>r. date_cell (g r) = Day d) (rows df)) \<and> 0 < n)
      \<and> sum_list (map snd daily_runs) = length (filter (\<lambda>r. date_cell (g r) \<noteq> NaT) (rows df))"
    by blast
  moreover have "date_cell (g r) =
      (case snd (parse start) s of Some t \<Rightarrow> Day (t div 86400000000000) | None \<Rightarrow> NaT)"
    if "r ''Run start'' = Str s" for r s
    using that by (simp add: g_def ns_per_day_def split: option.splits)
  moreover have "date_cell (g r) =
      (if - (2 ^ 63) < n \<and> n < 2 ^ 63 then Day (n div 86400000000000) else NaT)"
    if "r ''Run start'' = Num n" for r n
    using that by (simp add: g_def ns_per_day_def)
  moreover have "date_cell (g r) = NaT" if "r ''Run start'' = NaN" for r
    using that by (simp add: g_def)
  ultimately show ?thesis
    unfolding Let_def g_def start_def by blast
qed

lemma runs_log_days:
  "date_cell (to_ts toy_reading (run1 ''Run start'')) = Day 20249"
  "date_cell (to_ts toy_reading (run2 ''Run start'')) = Day 20249"
  "date_cell (to_ts toy_reading (run3 ''Run start'')) = Day 20250"
  "date_cell (to_ts toy_reading (run5 ''Run start'')) = NaT"
  "date_cell (to_ts toy_reading (run4 ''Run start'')) = NaT"
  by (simp_all add: run1_cells run2_cells run3_cells run4_cells run5_cells toy_reading_simps
      ns_per_day_def)

theorem daily_runs_buckets_witness:
  "map_of (columns runs_log) ''Status'' = Some Object
   \<and> has_column runs_log ''Pipeline name'' \<and> has_column runs_log ''Run start''
   \<and> fst (toy_parser (map (\<lambda>r. r ''Run start'') (rows runs_log))) = One_zone
   \<and> length (rows runs_log) = 4
   \<and> (\<exists>before daily_runs.
         fst (tab2 stable_desc toy_parser runs_log) = before @ [Line daily_runs]
       \<and> fst (snd (tab2 stable_desc toy_parser runs_log)) = None
       \<and> (Day 20249, 2) \<in> set daily_runs \<and> (Day 20250, 1) \<in> set daily_runs
       \<and> sum_list (map snd daily_runs) = 3)"
proof -
  have c: "map_of (columns runs_log) ''Status'' = Some Object"
    and p: "has_column runs_log ''Pipeline name''"
    and s: "has_column runs_log ''Run start''"
    by (simp_all add: runs_log_def adf_columns_def has_column_def)
  have r: "rows runs_log = [run1, run2, run3, run5]"
    by (simp add: runs_log_def)
  have z: "fst (toy_parser (map (\<lambda>r. r ''Run start'') (rows runs_log))) = One_zone"
    unfolding r by (rule toy_parser_zones(1))
  have "map_of (columns runs_log) ''Run start'' \<noteq> Some Object
      \<or> fst (toy_parser (map (\<lambda>r. r ''Run start'') (rows runs_log))) = One_zone"
    using z by simp
  from daily_runs_buckets [where sort_desc = stable_desc and parse = toy_parser, OF c p s this]
  obtain before daily_runs where
    "fst (tab2 stable_desc toy_parser runs_log) = before @ [Line daily_runs]"
    "fst (snd (tab2 stable_desc toy_parser runs_log)) = None"
    "(Day 20249, 2) \<in> set daily_runs" "(Day 20250, 1) \<in> set daily_runs"
    "sum_list (map snd daily_runs) = 3"
    unfolding Let_def snd_toy_parser r by (auto simp: runs_log_days)
  then show ?thesis
    using c p s r z by auto
qed

text \<open>
  C7 as stated fails on a table with a \<open>Run start\<close> column and no \<open>Status\<close> column: the
  guard of line 92 shows a warning, and the daily runs are not computed. It also fails
  on a table with all three columns whose \<open>Run start\<close> strings have different UTC
  offsets: \<open>pd.to_datetime\<close> returns a column of dtype \<open>object\<close>, line 144 raises
  \<open>AttributeError\<close>, and no daily runs are shown.
\<close>

theorem daily_runs_not_computed:
  "has_column no_status_log ''Run start''
   \<and> tab2 stable_desc toy_parser no_status_log = ([Warning_required], None, no_status_log)
   \<and> has_column offset_log ''Status'' \<and> has_column offset_log ''Pipeline name''
   \<and> has_column offset_log ''Run start''
   \<and> fst (tab2 stable_desc toy_parser offset_log) =
       [Metrics 1 1 0 0, Pie [(Str ''Succeeded'', 1), (Str ''Failed'', 1)],
        Bar [(Str ''load_orders'', 1)]]
   \<and> fst (snd (tab2 stable_desc toy_parser offset_log)) = Some AttributeError"
proof -
  have "\<not> has_column no_status_log ''Status''"
    by (simp add: has_column_def no_status_log_def)
  then have "tab2 stable_desc toy_parser no_status_log =
      ([Warning_required], None, no_status_log)"
    by (simp add: tab2_required)
  moreover have "has_column offset_log ''Status''" "has_column offset_log ''Pipeline name''"
    "has_column offset_log ''Run start''"
    by (simp_all add: has_column_def offset_log_def adf_columns_def)
  ultimately show ?thesis
    by (simp add: has_column_def no_status_log_def tab2_offset_log)
qed

text \<open>
  C10 (amended). On a table whose \<open>Status\<close>, \<open>Pipeline name\<close> and \<open>Run start\<close> columns are
  text, as \<open>read_csv\<close> gives them, and whose \<open>Run start\<close> strings do not differ in their
  UTC offset: when the toggle is on and the failed subset is not empty, line 57 leaves
  \<open>failed_df\<close> with a \<open>PipelineKey\<close> column holding the keys; the dashboard raises nothing
  and leaves \<open>df\<close> with its \<open>Run start\<close> column replaced by a datetime column that holds
  the parser's reading of each string and NaT for a string the parser rejects and for an
  empty field, and with a \<open>Date\<close> column of their days (of dtype object, or datetime when
  the table is not empty and no \<open>Run start\<close> parses), so the table is no longer the one
  that was read; and that is the \<open>df\<close> a run that reaches tab 2 ends with.
\<close>

theorem rendering_mutates_tables:
  assumes "text_column df ''Status''" and "text_column df ''Pipeline name''"
    and "text_column df ''Run start''"
    and "fst (parse (map (\<lambda>r. r ''Run start'') (rows df))) = One_zone"
  shows "let failed = filter (\<lambda>r. lower_cell (r ''Status'') = Str ''failed'') (rows df);
             keys = map (\<lambda>r. case (r ''Pipeline name'', r ''Run start'') of
                                (Str a, Str b) \<Rightarrow> Str (a @ '' - '' @ b) | _ \<Rightarrow> NaN) failed;
             failed_df' = setitem (df\<lparr>rows := failed\<rparr>) ''PipelineKey'' (Object, keys);
             start = map (\<lambda>r. r ''Run start'') (rows df);
             parsed = map (\<lambda>c. case c of
                                   Str s \<Rightarrow> (case snd (parse start) s of
                                               Some t \<Rightarrow> Ts t | None \<Rightarrow> NaT)
                                 | _ \<Rightarrow> NaT) start;
             dates = map (\<lambda>c. case c of Ts t \<Rightarrow> Day (t div 86400000000000) | _ \<Rightarrow> NaT)
                       parsed;
             date_dtype = (if dates \<noteq> [] \<and> list_all (\<lambda>d. d = NaT) dates
                           then Datetime else Object);
             df' = setitem (setitem df ''Run start'' (Datetime, parsed)) ''Date''
                     (date_dtype, dates)
         in (show_failed_only w \<and> failed \<noteq> [] \<longrightarrow>
               snd (snd (tab1 invoke w df)) = Some failed_df'
               \<and> getitem failed_df' ''PipelineKey'' = Inr (Object, keys))
          \<and> fst (snd (tab2 sort_desc parse df)) = None
          \<and> snd (snd (tab2 sort_desc parse df)) = df'
          \<and> getitem df' ''Run start'' = Inr (Datetime, parsed)
          \<and> getitem df' ''Date'' = Inr (date_dtype, dates)
          \<and> df' \<noteq> df
          \<and> (fst (snd (tab1 invoke w df)) = None \<longrightarrow>
                df_after (app invoke sort_desc parse w (Some (Inr df))) = Some df')"
proof -
  define failed where "failed = filter (\<lambda>r. lower_cell (r ''Status'') = Str ''failed'') (rows df)"
  define K :: "row \<Rightarrow> cell" where
    "K = (\<lambda>r. case (r ''Pipeline name'', r ''Run start'') of
                 (Str a, Str b) \<Rightarrow> Str (a @ '' - '' @ b) | _ \<Rightarrow> NaN)"
  define start where "start = map (\<lambda>r. r ''Run start'') (rows df)"
  define parsed where "parsed = map (to_ts (snd (parse start))) start"
  define dates where "dates = map date_cell parsed"
  define date_dtype where
    "date_dtype = (if dates \<noteq> [] \<and> list_all (\<lambda>d. d = NaT) dates then Datetime else Object)"
  define df1 where "df1 = setitem df ''Run start'' (Datetime, parsed)"
  define df' where "df' = setitem df1 ''Date'' (date_dtype, dates)"
  have st: "map_of (columns df) ''Status'' = Some Object"
    and pn: "map_of (columns df) ''Pipeline name'' = Some Object"
    and rs: "map_of (columns df) ''Run start'' = Some Object"
    using assms(1-3) by (simp_all add: text_column_def)
  have "\<forall>c \<in> set start. is_text c"
    using assms(3) by (auto simp: text_column_def start_def list_all_iff)
  then have parsed_eq: "parsed =
      map (\<lambda>c. case c of
                  Str s \<Rightarrow> (case snd (parse start) s of Some t \<Rightarrow> Ts t | None \<Rightarrow> NaT)
                | _ \<Rightarrow> NaT) start"
    unfolding parsed_def by (intro map_cong refl) (simp add: to_ts_text)
  have dates_eq: "dates =
      map (\<lambda>c. case c of Ts t \<Rightarrow> Day (t div 86400000000000) | _ \<Rightarrow> NaT) parsed"
    unfolding dates_def by (intro map_cong refl) (rule date_cell_case)
  have one: "snd (snd (tab1 invoke w df)) =
        Some (setitem (df\<lparr>rows := failed\<rparr>) ''PipelineKey'' (Object, map K failed))"
    if "show_failed_only w" and "failed \<noteq> []"
    using tab1_binding [OF assms(1-3) that(1), of invoke] that(2) by (simp add: failed_def K_def)
  have key: "getitem (setitem (df\<lparr>rows := failed\<rparr>) ''PipelineKey'' (Object, map K failed))
        ''PipelineKey'' = Inr (Object, map K failed)"
    using getitem_setitem_same [of "df\<lparr>rows := failed\<rparr>" "''PipelineKey''" Object K] by simp
  have datetime: "fst (parse start) \<noteq> Mixed_zones"
    using assms(4) by (simp add: start_def)
  have tab2: "tab2 sort_desc parse df =
      (fst (tab2 sort_desc parse df), None, df')"
    unfolding tab2_text [OF st pn] Let_def rs start_def [symmetric]
    by (simp add: datetime df'_def df1_def date_dtype_def dates_def parsed_def)
  have ok: "fst (snd (tab2 sort_desc parse df)) = None"
    and two: "snd (snd (tab2 sort_desc parse df)) = df'"
    using tab2 by (metis fst_conv snd_conv)+
  have len: "length parsed = length (rows df)"
    by (simp add: parsed_def start_def)
  then have len1: "length dates = length (rows df1)"
    by (simp add: dates_def df1_def length_rows_setitem)
  have "getitem df' ''Run start'' = getitem df1 ''Run start''"
    unfolding df'_def using len1 by (rule getitem_setitem_other_length) simp
  also have "\<dots> = Inr (Datetime, parsed)"
    unfolding df1_def using len by (rule getitem_setitem_same_length)
  finally have three: "getitem df' ''Run start'' = Inr (Datetime, parsed)" .
  have four: "getitem df' ''Date'' = Inr (date_dtype, dates)"
    unfolding df'_def using len1 by (rule getitem_setitem_same_length)
  have "getitem df ''Run start'' = Inr (Object, map (\<lambda>r. r ''Run start'') (rows df))"
    using rs by (rule getitem_Some)
  then have "getitem df ''Run start'' \<noteq> getitem df' ''Run start''"
    by (simp add: three)
  then have five: "df' \<noteq> df"
    by auto
  have six: "df_after (app invoke sort_desc parse w (Some (Inr df))) = Some df'"
    if "fst (snd (tab1 invoke w df)) = None"
    using app_df_after [OF that, of sort_desc parse] two by simp
  show ?thesis
    using one key ok two three four five six
    unfolding Let_def failed_def [symmetric] K_def [symmetric] start_def [symmetric]
      parsed_eq [symmetric] dates_eq [symmetric] date_dtype_def [symmetric]
      df1_def [symmetric] df'_def [symmetric]
    by blast
qed

lemma tab1_dashboard_log_completes:
  "fst (snd (tab1 canned_reply toggle_on dashboard_log)) = None"
proof -
  define K :: "row \<Rightarrow> cell" where
    "K = (\<lambda>r. case (r ''Pipeline name'', r ''Run start'') of
                 (Str a, Str b) \<Rightarrow> Str (a @ '' - '' @ b) | _ \<Rightarrow> NaN)"
  define f where "f = dashboard_log\<lparr>rows := [run2, run3, run4]\<rparr>"
  have w: "show_failed_only toggle_on" "\<not> analyze_clicked toggle_on"
    by (simp_all add: toggle_on_def)
  have st: "map_of (columns dashboard_log) ''Status'' = Some Object"
    by (simp add: dashboard_log_def adf_columns_map_of)
  have ne: "\<not> empty_df f"
    by (simp add: empty_df_def f_def dashboard_log_def adf_columns_def)
  have "text_column f ''Pipeline name''" "text_column f ''Run start''"
    using dashboard_log_text(2,3)
      text_column_filter [of dashboard_log _ "\<lambda>r. lower_cell (r ''Status'') = Str ''failed''"]
    by (simp_all add: f_def failed_rows_dashboard_log)
  then have dk: "derive_keys f = Inr (Object, map K (rows f))"
    unfolding K_def by (rule derive_keys_text)
  have he: "has_column f ''Error''"
    by (simp add: has_column_def f_def dashboard_log_def adf_columns_def)
  have "fst (snd (ask_ai canned_reply toggle_on (Some f))) = None"
    by (simp add: ask_ai_keys [OF w(1) ne dk] w(2) he split: list.splits)
  moreover have "tab1 canned_reply toggle_on dashboard_log =
      (Show_table f # fst (ask_ai canned_reply toggle_on (Some f)),
       snd (ask_ai canned_reply toggle_on (Some f)))"
    using tab1_on [OF w(1) st, of canned_reply] by (simp add: failed_rows_dashboard_log f_def)
  ultimately show ?thesis
    by simp
qed

theorem rendering_mutates_tables_witness:
  "text_column dashboard_log ''Status'' \<and> text_column dashboard_log ''Pipeline name''
   \<and> text_column dashboard_log ''Run start''
   \<and> fst (toy_parser (map (\<lambda>r. r ''Run start'') (rows dashboard_log))) = One_zone
   \<and> map (\<lambda>r. r ''Run start'') (rows dashboard_log) =
       [Str ''6/10/2025, 5:03:19 PM'', Str ''6/10/2025, 6:10:00 PM'',
        Str ''6/11/2025, 6:10:00 PM'', Str ''yesterday'', NaN]
   \<and> snd (snd (tab1 canned_reply toggle_on dashboard_log)) =
       Some (setitem (dashboard_log\<lparr>rows := [run2, run3, run4]\<rparr>) ''PipelineKey''
               (Object, [Str ''load_orders - 6/10/2025, 6:10:00 PM'',
                         Str ''load_orders - 6/11/2025, 6:10:00 PM'', NaN]))
   \<and> raised (app canned_reply stable_desc toy_parser toggle_on (Some (Inr dashboard_log))) = None
   \<and> df_after (app canned_reply stable_desc toy_parser toggle_on (Some (Inr dashboard_log))) =
       Some (setitem
               (setitem dashboard_log ''Run start''
                  (Datetime, [Ts 1749574999000000000, Ts 1749579000000000000,
                              Ts 1749665400000000000, NaT, NaT]))
               ''Date'' (Object, [Day 20249, Day 20249, Day 20250, NaT, NaT]))
   \<and> df_after (app canned_reply stable_desc toy_parser toggle_on (Some (Inr dashboard_log))) \<noteq>
       Some dashboard_log"
proof -
  have w: "show_failed_only toggle_on"
    by (simp add: toggle_on_def)
  have r: "rows dashboard_log = [run1, run2, run3, run5, run4]"
    by (simp add: dashboard_log_def)
  have z: "fst (toy_parser (map (\<lambda>r. r ''Run start'') (rows dashboard_log))) = One_zone"
    unfolding r by (rule toy_parser_zones(2))
  have ok: "raised (app canned_reply stable_desc toy_parser toggle_on
      (Some (Inr dashboard_log))) = fst (snd (tab2 stable_desc toy_parser dashboard_log))"
    using tab1_dashboard_log_completes
    by (cases "tab1 canned_reply toggle_on dashboard_log";
        cases "tab2 stable_desc toy_parser dashboard_log") (simp add: app_def)
  note t = rendering_mutates_tables [where parse = toy_parser and invoke = canned_reply
        and w = toggle_on and sort_desc = stable_desc,
      OF dashboard_log_text z, unfolded Let_def failed_rows_dashboard_log snd_toy_parser]
  show ?thesis
    using t dashboard_log_text z w tab1_dashboard_log_completes ok
    by (simp add: r run1_cells run2_cells run3_cells run4_cells run5_cells toy_reading_simps)
qed

text \<open>
  C10 as stated fails on a table whose \<open>Run start\<close> strings have different UTC offsets:
  line 143 overwrites the column with a column of dtype \<open>object\<close>, not of parsed
  datetimes in a datetime column, line 144 raises \<open>AttributeError\<close> on it, and \<open>df\<close> ends
  without a \<open>Date\<close> column.
\<close>

theorem mixed_offsets_add_no_date:
  "text_column offset_log ''Status'' \<and> text_column offset_log ''Pipeline name''
   \<and> text_column offset_log ''Run start''
   \<and> raised (app canned_reply stable_desc toy_parser toggle_off (Some (Inr offset_log))) =
       Some AttributeError
   \<and> df_after (app canned_reply stable_desc toy_parser toggle_off (Some (Inr offset_log))) =
       Some (setitem offset_log ''Run start''
               (Object, [Ts 1749574999000000000, Ts 1749665400000000000]))
   \<and> getitem (setitem offset_log ''Run start''
                (Object, [Ts 1749574999000000000, Ts 1749665400000000000])) ''Date'' =
       Inl KeyError"
proof -
  have "\<not> show_failed_only toggle_off"
    by (simp add: toggle_off_def)
  then have "tab1 canned_reply toggle_off offset_log = ([Show_table offset_log], None, None)"
    by (rule tab1_off)
  then have "raised (app canned_reply stable_desc toy_parser toggle_off
        (Some (Inr offset_log))) = Some AttributeError"
    and "df_after (app canned_reply stable_desc toy_parser toggle_off (Some (Inr offset_log))) =
        Some (setitem offset_log ''Run start''
                (Object, [Ts 1749574999000000000, Ts 1749665400000000000]))"
    by (simp_all add: app_def tab2_offset_log)
  moreover have "getitem (setitem offset_log ''Run start''
        (Object, [Ts 1749574999000000000, Ts 1749665400000000000])) ''Date'' = Inl KeyError"
    by (simp add: getitem_def setitem_def update_conv' offset_log_def adf_columns_def)
  ultimately show ?thesis
    using offset_log_text by simp
qed







text \<open>
  C8 (amended). For every uploaded file that \<open>pd.read_csv\<close> rejects, whatever the
  exception and the widgets' state: the exception of line 33 ends the run. The script
  reports nothing of its own (no event, not even the notices of a run without a file),
  executes nothing of the two tabs, and has bound no table to \<open>df\<close> or \<open>failed_df\<close> when
  the run ends. Nothing in the script catches the exception, and the script keeps no
  table from an earlier run.
\<close>

theorem read_error_ends_run:
  "events (app invoke sort_desc parse w (Some (Inl e))) = []
   \<and> raised (app invoke sort_desc parse w (Some (Inl e))) = Some e
   \<and> df_after (app invoke sort_desc parse w (Some (Inl e))) = None
   \<and> failed_df_after (app invoke sort_desc parse w (Some (Inl e))) = None"
  by (simp add: app_def)

theorem read_error_ends_run_witness:
  "events (app canned_reply stable_desc toy_parser toggle_on (Some (Inl ParserError))) = []
   \<and> raised (app canned_reply stable_desc toy_parser toggle_on (Some (Inl ParserError))) =
       Some ParserError
   \<and> df_after (app canned_reply stable_desc toy_parser toggle_on (Some (Inl ParserError))) = None
   \<and> failed_df_after (app canned_reply stable_desc toy_parser toggle_on
        (Some (Inl ParserError))) = None"
  by (rule read_error_ends_run)

text \<open>
  C8 as stated fails on a file that \<open>read_csv\<close> rejects with a \<open>ParserError\<close>: the run ends
  with that exception, uncaught, and the script shows nothing, where a run without a file
  shows its two notices.
\<close>

theorem rejected_file_is_not_reported:
  "app canned_reply stable_desc toy_parser toggle_off (Some (Inl ParserError)) =
     \<lparr>events = [], raised = Some ParserError, df_after = None, failed_df_after = None\<rparr>
   \<and> app canned_reply stable_desc toy_parser toggle_off None =
     \<lparr>events = [Info_upload, Info_dashboard], raised = None, df_after = None,
      failed_df_after = None\<rparr>"
  by (simp add: app_def)

end
